theory Spec2Isabelle
  imports Complex_Main "HOL-Library.Word"
begin

section \<open>Graph construction for graph-cut segmentation (src/src/Graph.cpp)\<close>

text \<open>
  The file builds the edge list handed to a graph partitioner, in two ways:
  \<^verbatim>\<open>Graph::BuildFromSVM\<close> turns a list of pairwise relations into edges after a
  connectivity pass, and \<^verbatim>\<open>Graph::BuildFromPointCloud\<close> builds neighbourhood edges over
  an organised point cloud. Both are methods of a class whose fields persist between
  calls, so the model passes the object's state in and out explicitly.
\<close>

subsection \<open>Outcomes of a call\<close>

text \<open>
  A C++ call returns, throws, or has undefined behaviour. No statement of Graph.cpp
  throws or returns a status (both build methods are \<^verbatim>\<open>void\<close>), so the model never
  produces \<open>Throws\<close>; the constructor is there so that "the call signals an error"
  can be stated at all. \<open>Undefined\<close> is the outcome of an unchecked read past the end
  of a \<^verbatim>\<open>std::vector\<close>, of a read of a never-written array element and of an integer
  remainder by zero.
\<close>

datatype 'a outcome = Returns 'a | Throws | Undefined

fun obind :: "'a outcome \<Rightarrow> ('a \<Rightarrow> 'b outcome) \<Rightarrow> 'b outcome" where
  "obind (Returns x) f = f x"
| "obind Throws f = Throws"
| "obind Undefined f = Undefined"

text \<open>\<^verbatim>\<open>v[i]\<close> on a \<^verbatim>\<open>std::vector\<close>: no bounds check, undefined when out of range.\<close>

definition rd :: "'a list \<Rightarrow> nat \<Rightarrow> 'a outcome" where
  "rd xs i = (if i < length xs then Returns (xs ! i) else Undefined)"

text \<open>
  A \<^verbatim>\<open>for\<close> loop over the index values \<open>is\<close>, threading the loop's state and stopping
  at undefined behaviour.
\<close>

fun for_each :: "nat list \<Rightarrow> (nat \<Rightarrow> 's \<Rightarrow> 's outcome) \<Rightarrow> 's \<Rightarrow> 's outcome" where
  "for_each [] body s = Returns s"
| "for_each (i # is) body s = obind (body i s) (for_each is body)"

subsection \<open>Floating-point values\<close>

text \<open>
  A \<^verbatim>\<open>float\<close> or \<^verbatim>\<open>double\<close> value is NaN, one of the two infinities, or a finite
  number; the sign of zero is not modelled. \<^verbatim>\<open>isnan\<close>, \<^verbatim>\<open>fabs\<close> and the comparisons
  do not round: they are functions of the values. A comparison is false when either
  side is NaN.
\<close>

datatype cfloat = NaN | MInf | Fin real | PInf

definition isnan :: "cfloat \<Rightarrow> bool" where
  "isnan x = (x = NaN)"

fun fabs :: "cfloat \<Rightarrow> cfloat" where
  "fabs NaN = NaN"
| "fabs (Fin a) = Fin \<bar>a\<bar>"
| "fabs x = PInf"

fun flt :: "cfloat \<Rightarrow> cfloat \<Rightarrow> bool" where
  "flt NaN y = False"
| "flt x NaN = False"
| "flt (Fin a) (Fin b) = (a < b)"
| "flt x MInf = False"
| "flt PInf y = False"
| "flt x y = True"

definition fgt :: "cfloat \<Rightarrow> cfloat \<Rightarrow> bool" where
  "fgt x y = flt y x"

subsection \<open>Floating-point operations\<close>

text \<open>
  The operations that round are not defined by Graph.cpp but by the machine and the C
  library, and their results depend on the precision of each expression. They are
  parameters of the model, so that a theorem stated for every \<open>ops\<close> holds of the
  arithmetic the program runs on:
  \<^item> \<open>d_div\<close>, \<open>d_sub\<close>, \<open>d_mul\<close>, \<open>d_add\<close>: the \<^verbatim>\<open>double\<close> operations of the colour
    distance (the divisor \<^verbatim>\<open>255.\<close> is a \<^verbatim>\<open>double\<close>);
  \<^item> \<open>d_sqrt\<close>: \<^verbatim>\<open>sqrt\<close> of a \<^verbatim>\<open>double\<close>, as stored in the \<^verbatim>\<open>float\<close> array
    \<^verbatim>\<open>color_dist\<close>;
  \<^item> \<open>s_sub\<close>, \<open>s_mul\<close>, \<open>s_add\<close>, \<open>s_div\<close>: the \<^verbatim>\<open>float\<close> operations on depths,
    normals and colour distances;
  \<^item> \<open>f_acos\<close>: \<^verbatim>\<open>acos\<close> of the \<^verbatim>\<open>float\<close> dot product, as \<^verbatim>\<open>e.w2\<close> holds it after
    the assignment from the \<^verbatim>\<open>double\<close> variable \<^verbatim>\<open>angle\<close> (a conversion keeps NaN and
    numbers apart, so \<^verbatim>\<open>isnan(angle)\<close> is \<open>isnan\<close> of that value);
  \<^item> \<open>lit_157\<close>: the literal \<^verbatim>\<open>1.57\<close> as \<^verbatim>\<open>e.w2\<close> holds it. The type of the field is
    declared in the header Graph.h, which is not part of the source tree at hand.
\<close>

record float_ops =
  d_div :: "cfloat \<Rightarrow> cfloat \<Rightarrow> cfloat"
  d_sub :: "cfloat \<Rightarrow> cfloat \<Rightarrow> cfloat"
  d_mul :: "cfloat \<Rightarrow> cfloat \<Rightarrow> cfloat"
  d_add :: "cfloat \<Rightarrow> cfloat \<Rightarrow> cfloat"
  d_sqrt :: "cfloat \<Rightarrow> cfloat"
  s_sub :: "cfloat \<Rightarrow> cfloat \<Rightarrow> cfloat"
  s_mul :: "cfloat \<Rightarrow> cfloat \<Rightarrow> cfloat"
  s_add :: "cfloat \<Rightarrow> cfloat \<Rightarrow> cfloat"
  s_div :: "cfloat \<Rightarrow> cfloat \<Rightarrow> cfloat"
  f_acos :: "cfloat \<Rightarrow> cfloat"
  lit_157 :: cfloat

text \<open>
  What the theorems about weights use of the arithmetic. Rounding is monotone and
  leaves an integer of absolute value at most 2^24 as it is, in \<^verbatim>\<open>float\<close> and in
  \<^verbatim>\<open>double\<close>, so an operation whose exact result lies between two such integers
  gives a finite number between them:
  \<open>rounds\<close>, \<open>rounds_div\<close> (for a divisor that is not zero) and \<open>rounds_sqrt\<close> (for
  an argument that is not negative).
\<close>

definition between :: "int \<Rightarrow> int \<Rightarrow> cfloat \<Rightarrow> bool" where
  "between lo hi x \<longleftrightarrow> (\<exists>c. x = Fin c \<and> real_of_int lo \<le> c \<and> c \<le> real_of_int hi)"

definition rounds :: "(cfloat \<Rightarrow> cfloat \<Rightarrow> cfloat) \<Rightarrow> (real \<Rightarrow> real \<Rightarrow> real) \<Rightarrow> bool" where
  "rounds f exact \<longleftrightarrow>
     (\<forall>a b lo hi. \<bar>lo\<bar> \<le> 16777216 \<longrightarrow> \<bar>hi\<bar> \<le> 16777216 \<longrightarrow>
        real_of_int lo \<le> exact a b \<longrightarrow> exact a b \<le> real_of_int hi \<longrightarrow>
        between lo hi (f (Fin a) (Fin b)))"

definition rounds_div :: "(cfloat \<Rightarrow> cfloat \<Rightarrow> cfloat) \<Rightarrow> bool" where
  "rounds_div f \<longleftrightarrow>
     (\<forall>a b lo hi. b \<noteq> 0 \<longrightarrow> \<bar>lo\<bar> \<le> 16777216 \<longrightarrow> \<bar>hi\<bar> \<le> 16777216 \<longrightarrow>
        real_of_int lo \<le> a / b \<longrightarrow> a / b \<le> real_of_int hi \<longrightarrow>
        between lo hi (f (Fin a) (Fin b)))"

definition rounds_sqrt :: "(cfloat \<Rightarrow> cfloat) \<Rightarrow> bool" where
  "rounds_sqrt f \<longleftrightarrow>
     (\<forall>a lo hi. 0 \<le> a \<longrightarrow> \<bar>lo\<bar> \<le> 16777216 \<longrightarrow> \<bar>hi\<bar> \<le> 16777216 \<longrightarrow>
        real_of_int lo \<le> sqrt a \<longrightarrow> sqrt a \<le> real_of_int hi \<longrightarrow>
        between lo hi (f (Fin a)))"

text \<open>
  The local \<^verbatim>\<open>float z_adapt = 0.01;\<close> of \<^verbatim>\<open>BuildFromPointCloud\<close> (line 149): the literal
  0.01 converted to \<^verbatim>\<open>float\<close>, 5368709 / 2^29 = 0.00999999977...
\<close>

definition z_adapt :: cfloat where
  "z_adapt = Fin (5368709 / 536870912)"

text \<open>
  The largest value of \<^verbatim>\<open>acos\<close> is the one at -1, the \<^verbatim>\<open>float\<close> nearest \<open>\<pi>\<close>:
  13176795 / 2^22 = 3.14159274..., which is above \<open>\<pi>\<close>. In \<^verbatim>\<open>double\<close> the value
  at -1 is below \<open>\<pi>\<close>, and converted to \<^verbatim>\<open>float\<close> it is 13176795 / 2^22 again.
\<close>

definition float_pi :: real where
  "float_pi = 13176795 / 4194304"

text \<open>
  The laws: the operations of the colour distance and the \<^verbatim>\<open>float\<close> subtraction and
  division round as said; \<^verbatim>\<open>z_adapt\<close> times 1.0 is \<^verbatim>\<open>z_adapt\<close>; 0/0 is NaN; \<^verbatim>\<open>acos\<close> of
  1.0 is 0, and \<^verbatim>\<open>acos\<close> returns NaN or a number between 0 and \<open>float_pi\<close>; the
  stored literal 1.57 is a number between 0 and \<open>float_pi\<close>.
\<close>

definition float_laws :: "float_ops \<Rightarrow> bool" where
  "float_laws ops \<longleftrightarrow>
     rounds (d_add ops) (\<lambda>a b. a + b) \<and> rounds (d_sub ops) (\<lambda>a b. a - b)
   \<and> rounds (d_mul ops) (\<lambda>a b. a * b) \<and> rounds_div (d_div ops) \<and> rounds_sqrt (d_sqrt ops)
   \<and> rounds (s_sub ops) (\<lambda>a b. a - b) \<and> rounds_div (s_div ops)
   \<and> s_mul ops z_adapt (Fin 1) = z_adapt
   \<and> s_div ops (Fin 0) (Fin 0) = NaN
   \<and> f_acos ops (Fin 1) = Fin 0
   \<and> (\<forall>x. f_acos ops x = NaN \<or> (\<exists>y. f_acos ops x = Fin y \<and> 0 \<le> y \<and> y \<le> float_pi))
   \<and> (\<exists>y. lit_157 ops = Fin y \<and> 0 \<le> y \<and> y \<le> float_pi)"

subsection \<open>Data\<close>

text \<open>
  \<^verbatim>\<open>surface::Relation\<close> and \<^verbatim>\<open>gc::Edge\<close> are declared in headers that are not part of
  the source tree at hand; the records hold the fields Graph.cpp reads and writes.
  Node numbers are unsigned in the code and no arithmetic is done on them: they are
  natural numbers here. Field names carry a prefix where the bare name (\<^verbatim>\<open>a\<close>, \<^verbatim>\<open>b\<close>,
  \<^verbatim>\<open>w\<close>, \<^verbatim>\<open>type\<close>, \<^verbatim>\<open>z\<close>, \<^verbatim>\<open>r\<close>, ...) would capture a variable name.
\<close>

record Relation =
  id_0 :: nat
  id_1 :: nat
  groundTruth :: int
  rel_type :: int
  rel_probability :: "cfloat list"

record Edge =
  edge_a :: nat
  edge_b :: nat
  edge_type :: int
  edge_w :: cfloat
  edge_w2 :: cfloat

text \<open>\<^verbatim>\<open>pcl::PointXYZRGB\<close> (depth and colour are what the code reads) and \<^verbatim>\<open>pcl::Normal\<close>.\<close>

record PointXYZRGB =
  pt_z :: cfloat
  pt_r :: "8 word"
  pt_g :: "8 word"
  pt_b :: "8 word"

record Normal =
  normal :: "cfloat \<times> cfloat \<times> cfloat"
  curvature :: cfloat

text \<open>
  \<^verbatim>\<open>pcl::PointCloud<pcl::PointXYZRGB>\<close>: the point vector with the 32-bit unsigned
  \<^verbatim>\<open>width\<close> and \<^verbatim>\<open>height\<close>. Of the normals' cloud only the point vector is read.
\<close>

record PointCloud =
  points :: "PointXYZRGB list"
  width :: "32 word"
  height :: "32 word"

text \<open>The fields of \<^verbatim>\<open>gc::Graph\<close>; the two clouds are shared pointers, null until set.\<close>

record Graph =
  nodes :: nat
  relations :: "Relation list"
  edges :: "Edge list"
  pcl_cloud :: "PointCloud option"
  normals :: "Normal list option"

subsection \<open>Constructors\<close>

text \<open>\<^verbatim>\<open>Graph::Graph()\<close> and \<^verbatim>\<open>Graph::Graph(unsigned nrNodes, std::vector<surface::Relation> &rel)\<close>.\<close>

definition Graph_default :: Graph where
  "Graph_default = \<lparr>nodes = 0, relations = [], edges = [], pcl_cloud = None, normals = None\<rparr>"

definition Graph_init :: "nat \<Rightarrow> Relation list \<Rightarrow> Graph" where
  "Graph_init nrNodes rel =
     \<lparr>nodes = nrNodes, relations = rel, edges = [], pcl_cloud = None, normals = None\<rparr>"

subsection \<open>BuildFromSVM\<close>

text \<open>
  Lines 95 to 113, the body of the connectivity loop for node \<open>i\<close>: the inner loop
  looks through the relation list as it stands (synthesised relations included) for
  one with \<^verbatim>\<open>id_0 == 0 && id_1 == i\<close>; when there is none, a relation is appended.
\<close>

definition synth_relation :: "nat \<Rightarrow> Relation" where
  "synth_relation i =
     \<lparr>id_0 = 0, id_1 = i, groundTruth = - 1, rel_type = 1, rel_probability = [Fin 1, Fin 0]\<rparr>"

definition node_found :: "Relation list \<Rightarrow> nat \<Rightarrow> bool" where
  "node_found rels i = list_ex (\<lambda>r. id_0 r = 0 \<and> id_1 r = i) rels"

definition connect_node :: "nat \<Rightarrow> Relation list \<Rightarrow> Relation list" where
  "connect_node i rels = (if node_found rels i then rels else rels @ [synth_relation i])"

definition connectivity_check :: "nat \<Rightarrow> Relation list \<Rightarrow> Relation list" where
  "connectivity_check n rels = fold connect_node [1..<n] rels"

text \<open>
  Lines 120 to 129: one edge per relation, appended to the member \<^verbatim>\<open>edges\<close>. The local
  \<^verbatim>\<open>gc::Edge e\<close> is declared afresh in every iteration; \<open>e0\<close> is what that declaration
  leaves in the object (the class is declared in the absent header), and \<^verbatim>\<open>w2\<close> is never
  assigned here. \<^verbatim>\<open>rel_probability[0]\<close> is an unchecked read.
\<close>

definition relation_edge :: "Edge \<Rightarrow> Relation \<Rightarrow> Edge outcome" where
  "relation_edge e0 r =
     obind (rd (rel_probability r) 0) (\<lambda>p.
       Returns (e0\<lparr>edge_a := id_0 r, edge_b := id_1 r, edge_type := 1, edge_w := p\<rparr>))"

fun emit_edges :: "Edge \<Rightarrow> Relation list \<Rightarrow> Edge list \<Rightarrow> Edge list outcome" where
  "emit_edges e0 [] es = Returns es"
| "emit_edges e0 (r # rs) es =
     obind (relation_edge e0 r) (\<lambda>e. emit_edges e0 rs (es @ [e]))"

text \<open>
  The whole method. It returns the new state of the object, the vector copied into the
  reference parameter \<^verbatim>\<open>e\<close>, and \<^verbatim>\<open>num_edges\<close>, which is \<^verbatim>\<open>edges.size()\<close> converted to
  \<^verbatim>\<open>unsigned\<close>. The member \<^verbatim>\<open>edges\<close> is not cleared before the loop appends to it.
\<close>

definition BuildFromSVM :: "Edge \<Rightarrow> Graph \<Rightarrow> (Graph \<times> Edge list \<times> nat) outcome" where
  "BuildFromSVM e0 g =
     (let rels = connectivity_check (nodes g) (relations g) in
      obind (emit_edges e0 rels (edges g)) (\<lambda>es.
        Returns (g\<lparr>relations := rels, edges := es\<rparr>, es, length es mod 2 ^ 32)))"

subsection \<open>BuildFromPointCloud\<close>

text \<open>
  Modelled from the spec: \<^verbatim>\<open>GetIdx\<close> is declared in the header Graph.h, which is not
  part of the source tree at hand; the spec describes the cloud as a row-major
  structured array indexed by column and row.
\<close>

definition GetIdx :: "PointCloud \<Rightarrow> nat \<Rightarrow> nat \<Rightarrow> nat" where
  "GetIdx c col row = row * unat (width c) + col"

text \<open>
  Index arithmetic (\<^verbatim>\<open>idx+1\<close>, \<^verbatim>\<open>idx+pcl_cloud->width+1\<close>, ...) is done on natural
  numbers: a read is defined only below the vector's length, and sums beyond 32 bits are
  not modelled. The loop bounds \<^verbatim>\<open>pcl_cloud->height-1\<close> and \<^verbatim>\<open>pcl_cloud->width-1\<close> are
  32-bit unsigned subtractions and wrap at zero, as written below.
\<close>

text \<open>
  Lines 155 to 159: the maximum curvature. The loop runs over the normals and reads the
  point of the same index, whatever the length of the point vector. The result is only
  printed.
\<close>

definition curvature_step :: "PointCloud \<Rightarrow> Normal list \<Rightarrow> nat \<Rightarrow> cfloat \<Rightarrow> cfloat outcome" where
  "curvature_step c ns i max_curv =
     obind (rd (points c) i) (\<lambda>p.
       if \<not> isnan (pt_z p)
       then obind (rd ns i) (\<lambda>nm.
              Returns (if fgt (curvature nm) max_curv then curvature nm else max_curv))
       else Returns max_curv)"

definition max_curvature :: "PointCloud \<Rightarrow> Normal list \<Rightarrow> cfloat outcome" where
  "max_curvature c ns = for_each [0..<length ns] (curvature_step c ns) (Fin 0)"

text \<open>
  Lines 171 to 173 (and the three copies below them): the Euclidean distance of two
  colours, each channel converted to \<^verbatim>\<open>float\<close> (exactly) and divided by the
  \<^verbatim>\<open>double\<close> 255; the square root is stored in a \<^verbatim>\<open>float\<close>.
\<close>

definition channel :: "float_ops \<Rightarrow> 8 word \<Rightarrow> cfloat" where
  "channel ops v = d_div ops (Fin (real (unat v))) (Fin 255)"

definition color_distance :: "float_ops \<Rightarrow> PointXYZRGB \<Rightarrow> PointXYZRGB \<Rightarrow> cfloat" where
  "color_distance ops pt_0 pt_1 =
     d_sqrt ops (d_add ops (d_add ops
       (d_mul ops (d_sub ops (channel ops (pt_r pt_0)) (channel ops (pt_r pt_1)))
                  (d_sub ops (channel ops (pt_r pt_0)) (channel ops (pt_r pt_1))))
       (d_mul ops (d_sub ops (channel ops (pt_g pt_0)) (channel ops (pt_g pt_1)))
                  (d_sub ops (channel ops (pt_g pt_0)) (channel ops (pt_g pt_1)))))
       (d_mul ops (d_sub ops (channel ops (pt_b pt_0)) (channel ops (pt_b pt_1)))
                  (d_sub ops (channel ops (pt_b pt_0)) (channel ops (pt_b pt_1)))))"

text \<open>
  The array \<^verbatim>\<open>color_dist[points.size()][4]\<close> is a map from (index, direction) to the
  value written there; an element never written has no value. One direction of lines
  169 to 201: read both points, store their colour distance, raise \<^verbatim>\<open>max_color\<close>.
\<close>

type_synonym color_table = "nat \<times> nat \<Rightarrow> cfloat option"

definition color_step ::
  "float_ops \<Rightarrow> PointCloud \<Rightarrow> nat \<Rightarrow> nat \<Rightarrow> nat \<Rightarrow> color_table \<times> cfloat \<Rightarrow>
   (color_table \<times> cfloat) outcome" where
  "color_step ops c idx j k st =
     obind (rd (points c) idx) (\<lambda>pt_0.
     obind (rd (points c) j) (\<lambda>pt_1.
       let d = color_distance ops pt_0 pt_1
       in Returns ((fst st)((idx, k) \<mapsto> d), if fgt d (snd st) then d else snd st)))"

text \<open>
  Lines 168 to 204, the body of the first pair of loops. In the last direction the
  comparison with \<^verbatim>\<open>max_color\<close> stands inside the braces of \<^verbatim>\<open>if(col != 0)\<close>: at
  \<^verbatim>\<open>col == 0\<close> the value 1.0 is stored and \<^verbatim>\<open>max_color\<close> is left as it is.
\<close>

definition color_cell ::
  "float_ops \<Rightarrow> PointCloud \<Rightarrow> nat \<Rightarrow> nat \<Rightarrow> color_table \<times> cfloat \<Rightarrow>
   (color_table \<times> cfloat) outcome" where
  "color_cell ops c col row st =
     (let idx = GetIdx c col row; wd = unat (width c) in
      obind (color_step ops c idx (idx + 1) 0 st) (\<lambda>st.
      obind (color_step ops c idx (idx + wd) 1 st) (\<lambda>st.
      obind (color_step ops c idx (idx + wd + 1) 2 st) (\<lambda>st.
        if col \<noteq> 0 then color_step ops c idx (idx + wd - 1) 3 st
        else Returns ((fst st)((idx, 3) \<mapsto> Fin 1), snd st)))))"

definition color_pass :: "float_ops \<Rightarrow> PointCloud \<Rightarrow> (color_table \<times> cfloat) outcome" where
  "color_pass ops c =
     for_each [0..<unat (height c - 1)]
       (\<lambda>row. for_each [0..<unat (width c - 1)] (\<lambda>col. color_cell ops c col row))
       (Map.empty, Fin 0)"

text \<open>\<^verbatim>\<open>Dot3\<close>, lines 41 to 45, on \<^verbatim>\<open>float\<close> arrays.\<close>

fun Dot3 ::
  "float_ops \<Rightarrow> cfloat \<times> cfloat \<times> cfloat \<Rightarrow> cfloat \<times> cfloat \<times> cfloat \<Rightarrow> cfloat" where
  "Dot3 ops (a0, a1, a2) (b0, b1, b2) =
     s_add ops (s_add ops (s_mul ops a0 b0) (s_mul ops a1 b1)) (s_mul ops a2 b2)"

text \<open>
  The angle between the normals at \<open>idx\<close> and \<open>j\<close> (lines 275 to 279 and their copies):
  1.57 when the depth at \<open>idx\<close> is NaN, and then no normal is read.
\<close>

definition normals_angle ::
  "float_ops \<Rightarrow> PointCloud \<Rightarrow> Normal list \<Rightarrow> nat \<Rightarrow> nat \<Rightarrow> cfloat outcome" where
  "normals_angle ops c ns idx j =
     obind (rd (points c) idx) (\<lambda>p0.
       if isnan (pt_z p0) then Returns (lit_157 ops)
       else obind (rd ns idx) (\<lambda>n0.
            obind (rd ns j) (\<lambda>n1.
              Returns (f_acos ops (Dot3 ops (normal n0) (normal n1))))))"

text \<open>
  The test that admits an edge (lines 285 and 286 and their copies): \<^verbatim>\<open>z_dist\<close> is
  computed first, then both depths are tested for NaN and \<^verbatim>\<open>z_dist\<close> is compared with
  the \<^verbatim>\<open>float\<close> product of \<^verbatim>\<open>z_adapt\<close> and the depth at \<open>idx\<close>.
\<close>

definition depth_gate :: "float_ops \<Rightarrow> PointCloud \<Rightarrow> nat \<Rightarrow> nat \<Rightarrow> bool outcome" where
  "depth_gate ops c idx j =
     obind (rd (points c) idx) (\<lambda>p0.
     obind (rd (points c) j) (\<lambda>p1.
       let z_dist = fabs (s_sub ops (pt_z p0) (pt_z p1))
       in Returns (\<not> isnan (pt_z p0) \<and> \<not> isnan (pt_z p1)
                   \<and> flt z_dist (s_mul ops z_adapt (pt_z p0)))))"

text \<open>
  One direction of the second pair of loops (RIGHT, BOTTOM, BOTTOM-RIGHT, and
  BOTTOM-LEFT away from the first column): the local edge \<^verbatim>\<open>e\<close> gets its endpoints, type
  and both weights, and is appended to \<^verbatim>\<open>edges\<close> when the test admits it. The state is
  the local \<^verbatim>\<open>e\<close> with the member \<^verbatim>\<open>edges\<close>; \<open>j\<close> is the neighbour's index and \<open>k\<close> the
  direction's column in \<^verbatim>\<open>color_dist\<close>.
\<close>

definition edge_dir ::
  "float_ops \<Rightarrow> PointCloud \<Rightarrow> Normal list \<Rightarrow> color_table \<Rightarrow> cfloat \<Rightarrow> nat \<Rightarrow> nat \<Rightarrow> nat \<Rightarrow>
   Edge \<times> Edge list \<Rightarrow> (Edge \<times> Edge list) outcome" where
  "edge_dir ops c ns color_dist max_color idx j k st =
     (case color_dist (idx, k) of
        None \<Rightarrow> Undefined
      | Some d \<Rightarrow>
          obind (normals_angle ops c ns idx j) (\<lambda>angle.
          obind (depth_gate ops c idx j) (\<lambda>admit.
            let e = (fst st)\<lparr>edge_a := idx, edge_b := j, edge_type := 1,
                              edge_w := s_div ops d max_color,
                              edge_w2 := (if \<not> isnan angle then angle else lit_157 ops)\<rparr>
            in Returns (e, if admit then snd st @ [e] else snd st))))"

text \<open>
  Lines 265 to 361, the body of the second pair of loops. \<open>e0\<close> is the freshly declared
  local \<^verbatim>\<open>gc::Edge e\<close>. The last direction tests \<^verbatim>\<open>idx%pcl_cloud->width\<close>, a remainder
  that is undefined for width zero; in the first column only \<^verbatim>\<open>e.w\<close> is assigned, so the
  edge keeps the endpoints and \<^verbatim>\<open>w2\<close> that BOTTOM-RIGHT left in it, and the test reads the
  point at \<^verbatim>\<open>idx+pcl_cloud->width-1\<close>.
\<close>

definition graph_cell ::
  "float_ops \<Rightarrow> PointCloud \<Rightarrow> Normal list \<Rightarrow> color_table \<Rightarrow> cfloat \<Rightarrow> Edge \<Rightarrow> nat \<Rightarrow> nat \<Rightarrow>
   Edge list \<Rightarrow> Edge list outcome" where
  "graph_cell ops c ns color_dist max_color e0 col row es =
     (let idx = GetIdx c col row; wd = unat (width c) in
      obind (edge_dir ops c ns color_dist max_color idx (idx + 1) 0 (e0, es)) (\<lambda>st.
      obind (edge_dir ops c ns color_dist max_color idx (idx + wd) 1 st) (\<lambda>st.
      obind (edge_dir ops c ns color_dist max_color idx (idx + wd + 1) 2 st) (\<lambda>st.
        if wd = 0 then Undefined
        else if idx mod wd \<noteq> 0
        then obind (edge_dir ops c ns color_dist max_color idx (idx + wd - 1) 3 st) (\<lambda>st.
               Returns (snd st))
        else obind (depth_gate ops c idx (idx + wd - 1)) (\<lambda>admit.
               let e = (fst st)\<lparr>edge_w := Fin 1\<rparr>
               in Returns (if admit then snd st @ [e] else snd st))))))"

definition graph_pass ::
  "float_ops \<Rightarrow> PointCloud \<Rightarrow> Normal list \<Rightarrow> color_table \<Rightarrow> cfloat \<Rightarrow> Edge \<Rightarrow> Edge list \<Rightarrow>
   Edge list outcome" where
  "graph_pass ops c ns color_dist max_color e0 es =
     for_each [0..<unat (height c - 1)]
       (\<lambda>row. for_each [0..<unat (width c - 1)]
          (\<lambda>col. graph_cell ops c ns color_dist max_color e0 col row))
       es"

text \<open>
  The whole method: the member \<^verbatim>\<open>edges\<close> is cleared, so the second pair of loops starts
  from the empty list.
\<close>

definition BuildFromPointCloud ::
  "float_ops \<Rightarrow> Edge \<Rightarrow> Graph \<Rightarrow> PointCloud \<Rightarrow> Normal list \<Rightarrow>
   (Graph \<times> Edge list \<times> nat) outcome" where
  "BuildFromPointCloud ops e0 g c ns =
     obind (max_curvature c ns) (\<lambda>max_curv.
     obind (color_pass ops c) (\<lambda>cm.
     obind (graph_pass ops c ns (fst cm) (snd cm) e0 []) (\<lambda>es.
       Returns (g\<lparr>pcl_cloud := Some c, normals := Some ns, edges := es\<rparr>,
                es, length es mod 2 ^ 32))))"

subsection \<open>The edges of a cell, as the claims describe them\<close>

text \<open>
  The definitions of this subsection are not translated from the code: they say in one
  expression what the claims say about one grid cell, and the theorems below compare
  the loops of the code with them.

  The depth-continuity gate on the points of index \<open>idx\<close> and \<open>j\<close>: both depths are
  valid and their absolute difference is below \<^verbatim>\<open>z_adapt\<close> times the depth at \<open>idx\<close>,
  difference and product being those of the \<^verbatim>\<open>float\<close> arithmetic.
\<close>

definition admits :: "float_ops \<Rightarrow> PointCloud \<Rightarrow> nat \<Rightarrow> nat \<Rightarrow> bool" where
  "admits ops c idx j =
     (let z_0 = pt_z (points c ! idx); z_1 = pt_z (points c ! j)
      in \<not> isnan z_0 \<and> \<not> isnan z_1 \<and> flt (fabs (s_sub ops z_0 z_1)) (s_mul ops z_adapt z_0))"

text \<open>
  The normal-angle weight: the sentinel 1.57 when the depth at \<open>idx\<close> is NaN or the
  arc cosine of the normals' dot product is NaN, that arc cosine otherwise.
\<close>

definition angle_weight :: "float_ops \<Rightarrow> PointCloud \<Rightarrow> Normal list \<Rightarrow> nat \<Rightarrow> nat \<Rightarrow> cfloat" where
  "angle_weight ops c ns idx j =
     (if isnan (pt_z (points c ! idx)) then lit_157 ops
      else let angle = f_acos ops (Dot3 ops (normal (ns ! idx)) (normal (ns ! j)))
           in if isnan angle then lit_157 ops else angle)"

text \<open>The colour weight: the stored colour distance divided by the global maximum.\<close>

definition color_weight :: "float_ops \<Rightarrow> color_table \<Rightarrow> cfloat \<Rightarrow> nat \<Rightarrow> nat \<Rightarrow> cfloat" where
  "color_weight ops color_dist max_color idx k =
     (case color_dist (idx, k) of None \<Rightarrow> NaN | Some d \<Rightarrow> s_div ops d max_color)"

text \<open>The edge from \<open>idx\<close> to \<open>j\<close> with colour weight \<open>wv\<close>.\<close>

definition dir_edge :: "float_ops \<Rightarrow> PointCloud \<Rightarrow> Normal list \<Rightarrow> nat \<Rightarrow> nat \<Rightarrow> cfloat \<Rightarrow> Edge" where
  "dir_edge ops c ns idx j wv =
     \<lparr>edge_a = idx, edge_b = j, edge_type = 1, edge_w = wv,
      edge_w2 = angle_weight ops c ns idx j\<rparr>"

text \<open>
  The edges of the cell at (\<open>col\<close>, \<open>row\<close>), in the order right, bottom, bottom-right,
  bottom-left, each present exactly when the gate admits it; \<open>wt idx k\<close> is the colour
  weight of direction \<open>k\<close>. In the first column the bottom-left edge is the
  bottom-right edge with weight 1.0, admitted by the gate on the point of index
  \<open>idx + width - 1\<close>.
\<close>

definition cell_edges ::
  "float_ops \<Rightarrow> PointCloud \<Rightarrow> Normal list \<Rightarrow> (nat \<Rightarrow> nat \<Rightarrow> cfloat) \<Rightarrow> nat \<Rightarrow> nat \<Rightarrow> Edge list" where
  "cell_edges ops c ns wt col row =
     (let idx = GetIdx c col row; wd = unat (width c);
          right = dir_edge ops c ns idx (idx + 1) (wt idx 0);
          bottom = dir_edge ops c ns idx (idx + wd) (wt idx 1);
          bottom_right = dir_edge ops c ns idx (idx + wd + 1) (wt idx 2);
          bottom_left =
            (if col \<noteq> 0 then dir_edge ops c ns idx (idx + wd - 1) (wt idx 3)
             else bottom_right\<lparr>edge_w := Fin 1\<rparr>)
      in (if admits ops c idx (idx + 1) then [right] else [])
       @ (if admits ops c idx (idx + wd) then [bottom] else [])
       @ (if admits ops c idx (idx + wd + 1) then [bottom_right] else [])
       @ (if admits ops c idx (idx + wd - 1) then [bottom_left] else []))"

text \<open>
  The edges of the whole grid: those of the cells with \<open>row < height - 1\<close> and
  \<open>col < width - 1\<close>, row by row.
\<close>

definition grid_edges ::
  "float_ops \<Rightarrow> PointCloud \<Rightarrow> Normal list \<Rightarrow> (nat \<Rightarrow> nat \<Rightarrow> cfloat) \<Rightarrow> Edge list" where
  "grid_edges ops c ns wt =
     concat (map (\<lambda>row. concat (map (\<lambda>col. cell_edges ops c ns wt col row)
                                      [0..<unat (width c - 1)]))
                 [0..<unat (height c - 1)])"

text \<open>
  The clouds that the method is written for: a grid that is not empty, a normal for
  every point of the grid, and a point for every normal.
\<close>

definition accepted :: "PointCloud \<Rightarrow> Normal list \<Rightarrow> bool" where
  "accepted c ns \<longleftrightarrow> width c \<noteq> 0 \<and> height c \<noteq> 0
                    \<and> unat (width c) * unat (height c) \<le> length ns
                    \<and> length ns \<le> length (points c)"

text \<open>All points of the cloud have the colour (\<open>r\<close>, \<open>g\<close>, \<open>b\<close>).\<close>

definition uniform_color :: "PointCloud \<Rightarrow> 8 word \<Rightarrow> 8 word \<Rightarrow> 8 word \<Rightarrow> bool" where
  "uniform_color c r g b \<longleftrightarrow> list_all (\<lambda>p. pt_r p = r \<and> pt_g p = g \<and> pt_b p = b) (points c)"

subsection \<open>Invariants of the two passes\<close>

text \<open>
  After any number of steps of the first pass: \<^verbatim>\<open>max_color\<close> is a finite number, not
  negative, and every value stored in \<^verbatim>\<open>color_dist\<close> is a finite number between zero
  and \<^verbatim>\<open>max_color\<close>, or the 1.0 stored for the last direction in the first column.
\<close>

definition color_ok :: "nat \<Rightarrow> color_table \<times> cfloat \<Rightarrow> bool" where
  "color_ok wd st \<longleftrightarrow>
     (\<exists>m. snd st = Fin m \<and> 0 \<le> m \<and>
        (\<forall>i k v. fst st (i, k) = Some v \<longrightarrow>
           (\<exists>x. v = Fin x \<and> 0 \<le> x \<and> (x \<le> m \<or> (k = 3 \<and> i mod wd = 0 \<and> x = 1)))))"

text \<open>
  On a cloud of one colour: \<^verbatim>\<open>max_color\<close> stays zero, and every value stored in
  \<^verbatim>\<open>color_dist\<close> is zero or the 1.0 of the first column.
\<close>

definition color_zero :: "nat \<Rightarrow> color_table \<times> cfloat \<Rightarrow> bool" where
  "color_zero wd st \<longleftrightarrow>
     snd st = Fin 0 \<and>
     (\<forall>i k v. fst st (i, k) = Some v \<longrightarrow> v = Fin 0 \<or> (k = 3 \<and> i mod wd = 0 \<and> v = Fin 1))"

text \<open>
  The ranges of an edge's weights: \<open>w2\<close> lies between 0 and \<open>hi\<close>, and \<open>w\<close> lies
  between 0 and 1 when \<^verbatim>\<open>max_color\<close> is not zero.
\<close>

definition weights_ok :: "real \<Rightarrow> cfloat \<Rightarrow> Edge \<Rightarrow> bool" where
  "weights_ok hi mc e \<longleftrightarrow>
     (\<exists>y. edge_w2 e = Fin y \<and> 0 \<le> y \<and> y \<le> hi) \<and>
     (mc \<noteq> Fin 0 \<longrightarrow> (\<exists>x. edge_w e = Fin x \<and> 0 \<le> x \<and> x \<le> 1))"

text \<open>All four directions of the cell of index \<open>idx\<close> have been written to \<^verbatim>\<open>color_dist\<close>.\<close>

definition written :: "nat \<Rightarrow> color_table \<Rightarrow> bool" where
  "written idx tbl \<longleftrightarrow> tbl (idx, 0) \<noteq> None \<and> tbl (idx, 1) \<noteq> None
                       \<and> tbl (idx, 2) \<noteq> None \<and> tbl (idx, 3) \<noteq> None"

subsection \<open>An arithmetic for the examples\<close>

text \<open>
  The examples below are evaluated with operations that do not round: addition,
  subtraction, multiplication, division and square root on the real numbers extended
  by NaN and the infinities. On the numbers of the examples (0, 1, -1, 255 and
  \<^verbatim>\<open>z_adapt\<close> times 1) the operations of the machine do not round either, so the
  examples have there the values of a run.
\<close>

fun fneg :: "cfloat \<Rightarrow> cfloat" where
  "fneg NaN = NaN"
| "fneg MInf = PInf"
| "fneg (Fin a) = Fin (- a)"
| "fneg PInf = MInf"

fun fadd :: "cfloat \<Rightarrow> cfloat \<Rightarrow> cfloat" where
  "fadd NaN y = NaN"
| "fadd x NaN = NaN"
| "fadd (Fin a) (Fin b) = Fin (a + b)"
| "fadd PInf MInf = NaN"
| "fadd MInf PInf = NaN"
| "fadd PInf y = PInf"
| "fadd MInf y = MInf"
| "fadd (Fin a) y = y"

definition fsub :: "cfloat \<Rightarrow> cfloat \<Rightarrow> cfloat" where
  "fsub x y = fadd x (fneg y)"

text \<open>The sign of a value that is not NaN: \<open>-1\<close>, \<open>0\<close> or \<open>1\<close>.\<close>

fun fsign :: "cfloat \<Rightarrow> real" where
  "fsign (Fin a) = sgn a"
| "fsign PInf = 1"
| "fsign MInf = - 1"
| "fsign NaN = 0"

definition signed_inf :: "real \<Rightarrow> cfloat" where
  "signed_inf s = (if s = 0 then NaN else if 0 < s then PInf else MInf)"

fun fmul :: "cfloat \<Rightarrow> cfloat \<Rightarrow> cfloat" where
  "fmul NaN y = NaN"
| "fmul x NaN = NaN"
| "fmul (Fin a) (Fin b) = Fin (a * b)"
| "fmul x y = signed_inf (fsign x * fsign y)"

fun fdiv :: "cfloat \<Rightarrow> cfloat \<Rightarrow> cfloat" where
  "fdiv NaN y = NaN"
| "fdiv x NaN = NaN"
| "fdiv (Fin a) (Fin b) = (if b = 0 then signed_inf (sgn a) else Fin (a / b))"
| "fdiv (Fin a) y = Fin 0"
| "fdiv x (Fin b) = signed_inf (fsign x * (if b < 0 then - 1 else 1))"
| "fdiv x y = NaN"

fun fsqrt :: "cfloat \<Rightarrow> cfloat" where
  "fsqrt (Fin a) = (if a < 0 then NaN else Fin (sqrt a))"
| "fsqrt PInf = PInf"
| "fsqrt x = NaN"

text \<open>
  The arc cosine of the examples: the value that the C library returns in \<^verbatim>\<open>float\<close>
  at 1 and at -1 (0 and \<open>float_pi\<close>), the only arguments that the examples use; in
  between, the arc cosine of the real numbers, capped at \<open>float_pi\<close>.
\<close>

fun acos_example :: "cfloat \<Rightarrow> cfloat" where
  "acos_example (Fin a) =
     (if a = 1 then Fin 0
      else if a = - 1 then Fin float_pi
      else if - 1 < a \<and> a < 1 then Fin (min (arccos a) float_pi)
      else NaN)"
| "acos_example x = NaN"

text \<open>The literal 1.57 of the examples is the \<^verbatim>\<open>float\<close> nearest 1.57.\<close>

definition example_ops :: float_ops where
  "example_ops =
     \<lparr>d_div = fdiv, d_sub = fsub, d_mul = fmul, d_add = fadd, d_sqrt = fsqrt,
      s_sub = fsub, s_mul = fmul, s_add = fadd, s_div = fdiv,
      f_acos = acos_example, lit_157 = Fin (13170115 / 8388608)\<rparr>"

subsection \<open>Example inputs\<close>

text \<open>A local edge whose fields are all zero, and a relation between nodes 0 and 1.\<close>

definition edge_zero :: Edge where
  "edge_zero = \<lparr>edge_a = 0, edge_b = 0, edge_type = 0, edge_w = Fin 0, edge_w2 = Fin 0\<rparr>"

definition rel_01 :: Relation where
  "rel_01 = \<lparr>id_0 = 0, id_1 = 1, groundTruth = 0, rel_type = 1,
             rel_probability = [Fin (9 / 10), Fin (1 / 10)]\<rparr>"

definition rel_empty :: Relation where
  "rel_empty = \<lparr>id_0 = 0, id_1 = 1, groundTruth = 0, rel_type = 1, rel_probability = []\<rparr>"

text \<open>
  Points at depth 1.0 (black and red) and one without a depth, normals along the z axis
  in both directions, three clouds of two by two points, and the cloud of three by two
  copies of one point with the edge list the code builds from it.
\<close>

definition pt_black :: PointXYZRGB where
  "pt_black = \<lparr>pt_z = Fin 1, pt_r = 0, pt_g = 0, pt_b = 0\<rparr>"

definition pt_red :: PointXYZRGB where
  "pt_red = \<lparr>pt_z = Fin 1, pt_r = 255, pt_g = 0, pt_b = 0\<rparr>"

definition pt_hole :: PointXYZRGB where
  "pt_hole = \<lparr>pt_z = NaN, pt_r = 0, pt_g = 0, pt_b = 0\<rparr>"

definition normal_up :: Normal where
  "normal_up = \<lparr>normal = (Fin 0, Fin 0, Fin 1), curvature = Fin 0\<rparr>"

definition normal_down :: Normal where
  "normal_down = \<lparr>normal = (Fin 0, Fin 0, Fin (- 1)), curvature = Fin 0\<rparr>"

definition cloud_flat :: PointCloud where
  "cloud_flat = \<lparr>points = [pt_black, pt_black, pt_black, pt_black], width = 2, height = 2\<rparr>"

definition cloud_red :: PointCloud where
  "cloud_red = \<lparr>points = [pt_black, pt_red, pt_black, pt_black], width = 2, height = 2\<rparr>"

definition cloud_hole :: PointCloud where
  "cloud_hole = \<lparr>points = [pt_black, pt_black, pt_black, pt_hole], width = 2, height = 2\<rparr>"

definition cloud_3x2 :: "PointXYZRGB \<Rightarrow> PointCloud" where
  "cloud_3x2 p = \<lparr>points = replicate 6 p, width = 3, height = 2\<rparr>"

definition edges_3x2 :: "Edge list" where
  "edges_3x2 =
     [\<lparr>edge_a = 0, edge_b = 1, edge_type = 1, edge_w = NaN, edge_w2 = Fin 0\<rparr>,
      \<lparr>edge_a = 0, edge_b = 3, edge_type = 1, edge_w = NaN, edge_w2 = Fin 0\<rparr>,
      \<lparr>edge_a = 0, edge_b = 4, edge_type = 1, edge_w = NaN, edge_w2 = Fin 0\<rparr>,
      \<lparr>edge_a = 0, edge_b = 4, edge_type = 1, edge_w = Fin 1, edge_w2 = Fin 0\<rparr>,
      \<lparr>edge_a = 1, edge_b = 2, edge_type = 1, edge_w = NaN, edge_w2 = Fin 0\<rparr>,
      \<lparr>edge_a = 1, edge_b = 4, edge_type = 1, edge_w = NaN, edge_w2 = Fin 0\<rparr>,
      \<lparr>edge_a = 1, edge_b = 5, edge_type = 1, edge_w = NaN, edge_w2 = Fin 0\<rparr>,
      \<lparr>edge_a = 1, edge_b = 3, edge_type = 1, edge_w = NaN, edge_w2 = Fin 0\<rparr>]"

section \<open>Properties of BuildFromSVM\<close>

subsection \<open>Outcomes\<close>

lemma obind_Returns_iff:
  "obind m f = Returns y \<longleftrightarrow> (\<exists>x. m = Returns x \<and> f x = Returns y)"
  by (cases m) auto

subsection \<open>The connectivity pass\<close>

lemma node_found_iff: "node_found rels i \<longleftrightarrow> (\<exists>r\<in>set rels. id_0 r = 0 \<and> id_1 r = i)"
  by (simp add: node_found_def list_ex_iff)

lemma node_found_snoc:
  "node_found (rels @ [synth_relation j]) i \<longleftrightarrow> node_found rels i \<or> j = i"
  by (auto simp: node_found_iff synth_relation_def)

text \<open>
  A relation synthesised for an earlier node never answers the search for a later one,
  so the pass appends one relation for each node that the input list does not link to
  node 0.
\<close>

lemma fold_connect_node:
  "distinct js \<Longrightarrow>
   fold connect_node js rels = rels @ map synth_relation (filter (\<lambda>i. \<not> node_found rels i) js)"
proof (induction js arbitrary: rels)
  case Nil
  then show ?case by simp
next
  case (Cons j js)
  have same: "filter (\<lambda>i. \<not> node_found (rels @ [synth_relation j]) i) js
              = filter (\<lambda>i. \<not> node_found rels i) js"
    using Cons.prems by (intro filter_cong) (auto simp: node_found_snoc)
  show ?case
    using Cons.prems Cons.IH [of "connect_node j rels"]
    by (simp add: connect_node_def same)
qed

lemma connectivity_check_eq:
  "connectivity_check n rels
   = rels @ map synth_relation (filter (\<lambda>i. \<not> node_found rels i) [1..<n])"
  by (simp add: connectivity_check_def fold_connect_node)

lemma connectivity_check_empty_prob:
  "(\<exists>r\<in>set (connectivity_check n rels). rel_probability r = [])
   \<longleftrightarrow> (\<exists>r\<in>set rels. rel_probability r = [])"
  by (auto simp: connectivity_check_eq synth_relation_def)

subsection \<open>The edge loop\<close>

lemma relation_edge_eq:
  "relation_edge e0 r =
     (if rel_probability r = [] then Undefined
      else Returns (e0\<lparr>edge_a := id_0 r, edge_b := id_1 r, edge_type := 1,
                       edge_w := rel_probability r ! 0\<rparr>))"
  by (simp add: relation_edge_def rd_def)

lemma emit_edges_eq:
  "emit_edges e0 rs es =
     (if \<exists>r\<in>set rs. rel_probability r = [] then Undefined
      else Returns (es @ map (\<lambda>r. e0\<lparr>edge_a := id_0 r, edge_b := id_1 r, edge_type := 1,
                                       edge_w := rel_probability r ! 0\<rparr>) rs))"
  by (induction rs arbitrary: es) (auto simp: relation_edge_eq)

lemma BuildFromSVM_eq:
  "BuildFromSVM e0 g =
     (if \<exists>r\<in>set (relations g). rel_probability r = [] then Undefined
      else let rels = connectivity_check (nodes g) (relations g);
               es = edges g @ map (\<lambda>r. e0\<lparr>edge_a := id_0 r, edge_b := id_1 r, edge_type := 1,
                                       edge_w := rel_probability r ! 0\<rparr>) rels
           in Returns (g\<lparr>relations := rels, edges := es\<rparr>, es, length es mod 2 ^ 32))"
  by (simp add: BuildFromSVM_def emit_edges_eq connectivity_check_empty_prob Let_def)

text \<open>
  The spec's example: one relation between nodes 0 and 1 with probabilities 0.9 and 0.1,
  three nodes. Node 2 gets a synthesised relation.
\<close>

lemma BuildFromSVM_example:
  "BuildFromSVM edge_zero (Graph_init 3 [rel_01])
   = Returns
      (\<lparr>nodes = 3,
        relations = [rel_01, \<lparr>id_0 = 0, id_1 = 2, groundTruth = - 1, rel_type = 1,
                               rel_probability = [Fin 1, Fin 0]\<rparr>],
        edges = [\<lparr>edge_a = 0, edge_b = 1, edge_type = 1, edge_w = Fin (9 / 10), edge_w2 = Fin 0\<rparr>,
                 \<lparr>edge_a = 0, edge_b = 2, edge_type = 1, edge_w = Fin 1, edge_w2 = Fin 0\<rparr>],
        pcl_cloud = None, normals = None\<rparr>,
       [\<lparr>edge_a = 0, edge_b = 1, edge_type = 1, edge_w = Fin (9 / 10), edge_w2 = Fin 0\<rparr>,
        \<lparr>edge_a = 0, edge_b = 2, edge_type = 1, edge_w = Fin 1, edge_w2 = Fin 0\<rparr>],
       2)"
  by (simp add: BuildFromSVM_def Graph_init_def connectivity_check_def connect_node_def
      node_found_def synth_relation_def relation_edge_def rd_def upt_rec edge_zero_def rel_01_def)

subsection \<open>Connectivity and edge count\<close>

text \<open>
  Claim C1. On a builder constructed with \<open>N\<close> nodes and a relation list in which no
  probability vector is empty, \<^verbatim>\<open>BuildFromSVM\<close> returns, with the length of the output
  (converted to 32 bits) as the count; every node \<open>i\<close> with \<open>1 \<le> i < N\<close> has an edge
  from node 0 to \<open>i\<close> in the output; and the output has as many edges as there are input
  relations plus one for each node \<open>i\<close> with \<open>1 \<le> i < N\<close> that no input relation links
  by \<^verbatim>\<open>id_0 == 0 && id_1 == i\<close>, so it has at least as many edges as input relations.
\<close>

theorem BuildFromSVM_connected_count:
  assumes "\<forall>r\<in>set rels. rel_probability r \<noteq> []"
  shows "\<exists>g' es. BuildFromSVM e0 (Graph_init N rels) = Returns (g', es, length es mod 2 ^ 32)
       \<and> (\<forall>i. 1 \<le> i \<and> i < N \<longrightarrow> (\<exists>e\<in>set es. edge_a e = 0 \<and> edge_b e = i))
       \<and> length es = length rels
           + length (filter (\<lambda>i. \<not> (\<exists>r\<in>set rels. id_0 r = 0 \<and> id_1 r = i)) [1..<N])
       \<and> length rels \<le> length es"
proof -
  define mk where "mk = (\<lambda>r::Relation. e0\<lparr>edge_a := id_0 r, edge_b := id_1 r, edge_type := 1,
                      edge_w := rel_probability r ! 0\<rparr>)"
  have mk: "edge_a (mk r) = id_0 r" "edge_b (mk r) = id_1 r" for r
    by (simp_all add: mk_def)
  let ?missing = "filter (\<lambda>i. \<not> node_found rels i) [1..<N]"
  define es where "es = map mk (rels @ map synth_relation ?missing)"
  define g' where "g' = (Graph_init N rels)\<lparr>relations := rels @ map synth_relation ?missing,
                                             edges := es\<rparr>"
  have ret: "BuildFromSVM e0 (Graph_init N rels) = Returns (g', es, length es mod 2 ^ 32)"
    using assms
    by (simp add: BuildFromSVM_eq Graph_init_def Let_def connectivity_check_eq mk_def es_def
        g'_def)
  have star: "\<exists>e\<in>set es. edge_a e = 0 \<and> edge_b e = i" if i: "1 \<le> i \<and> i < N" for i
  proof (cases "node_found rels i")
    case True
    then obtain r where r: "r \<in> set rels" "id_0 r = 0" "id_1 r = i"
      by (auto simp: node_found_iff)
    from r(1) have "mk r \<in> set es" by (simp add: es_def)
    with r(2,3) show ?thesis using mk by metis
  next
    case False
    with i have "i \<in> set ?missing" by simp
    then have "mk (synth_relation i) \<in> set es" by (simp add: es_def)
    moreover have "id_0 (synth_relation i) = 0" "id_1 (synth_relation i) = i"
      by (simp_all add: synth_relation_def)
    ultimately show ?thesis using mk by metis
  qed
  have len: "length es = length rels + length ?missing"
    by (simp add: es_def)
  have "(\<forall>i. 1 \<le> i \<and> i < N \<longrightarrow> (\<exists>e\<in>set es. edge_a e = 0 \<and> edge_b e = i))
       \<and> length es = length rels
           + length (filter (\<lambda>i. \<not> (\<exists>r\<in>set rels. id_0 r = 0 \<and> id_1 r = i)) [1..<N])
       \<and> length rels \<le> length es"
    using star len by (simp add: node_found_iff)
  with ret show ?thesis by blast
qed

theorem BuildFromSVM_connected_count_witness:
  "\<exists>g' es. BuildFromSVM edge_zero (Graph_init 3 [rel_01]) = Returns (g', es, length es mod 2 ^ 32)
     \<and> (\<forall>i. 1 \<le> i \<and> i < 3 \<longrightarrow> (\<exists>e\<in>set es. edge_a e = 0 \<and> edge_b e = i))
     \<and> length es = length [rel_01]
         + length (filter (\<lambda>i. \<not> (\<exists>r\<in>set [rel_01]. id_0 r = 0 \<and> id_1 r = i)) [1..<3])
     \<and> length [rel_01] \<le> length es"
  using BuildFromSVM_connected_count [of "[rel_01]" edge_zero 3] by (simp add: rel_01_def)

subsection \<open>One edge per relation\<close>

text \<open>
  Claim C5. On a builder in which no relation has an empty probability vector,
  \<^verbatim>\<open>BuildFromSVM\<close> returns; the final relation list is the input list followed, in the
  order of the node numbers, by one synthesised relation for each unlinked node, each
  with \<open>id_0 = 0\<close>, \<open>id_1 = i\<close>, ground truth \<open>-1\<close>, type 1 and probabilities
  \<open>[1.0, 0.0]\<close>; and the call appends to the edge list exactly one edge per relation of
  the final list, in order, with \<open>a = id_0\<close>, \<open>b = id_1\<close>, type 1 and \<open>w\<close> the first
  entry of the relation's probability vector, unchanged.
\<close>

theorem BuildFromSVM_edges_of_relations:
  assumes "\<forall>r\<in>set (relations g). rel_probability r \<noteq> []"
  shows "\<exists>g' es. BuildFromSVM e0 g = Returns (g', es, length es mod 2 ^ 32)
       \<and> relations g' = relations g @
           map (\<lambda>i. \<lparr>id_0 = 0, id_1 = i, groundTruth = - 1, rel_type = 1,
                      rel_probability = [Fin 1, Fin 0]\<rparr>)
             (filter (\<lambda>i. \<not> (\<exists>r\<in>set (relations g). id_0 r = 0 \<and> id_1 r = i)) [1..<nodes g])
       \<and> es = edges g @
           map (\<lambda>r. e0\<lparr>edge_a := id_0 r, edge_b := id_1 r, edge_type := 1,
                        edge_w := rel_probability r ! 0\<rparr>) (relations g')
       \<and> edges g' = es"
proof -
  have synth: "synth_relation = (\<lambda>i. \<lparr>id_0 = 0, id_1 = i, groundTruth = - 1, rel_type = 1,
                      rel_probability = [Fin 1, Fin 0]\<rparr>)"
    by (rule ext) (simp add: synth_relation_def)
  define rels where "rels = connectivity_check (nodes g) (relations g)"
  define es where "es = edges g @
           map (\<lambda>r. e0\<lparr>edge_a := id_0 r, edge_b := id_1 r, edge_type := 1,
                        edge_w := rel_probability r ! 0\<rparr>) rels"
  have "BuildFromSVM e0 g = Returns (g\<lparr>relations := rels, edges := es\<rparr>, es, length es mod 2 ^ 32)"
    using assms by (simp add: BuildFromSVM_eq Let_def rels_def es_def)
  moreover have "relations (g\<lparr>relations := rels, edges := es\<rparr>) = relations g @
           map (\<lambda>i. \<lparr>id_0 = 0, id_1 = i, groundTruth = - 1, rel_type = 1,
                      rel_probability = [Fin 1, Fin 0]\<rparr>)
             (filter (\<lambda>i. \<not> (\<exists>r\<in>set (relations g). id_0 r = 0 \<and> id_1 r = i)) [1..<nodes g])"
    by (simp add: rels_def connectivity_check_eq node_found_iff synth)
  moreover have "es = edges g @
           map (\<lambda>r. e0\<lparr>edge_a := id_0 r, edge_b := id_1 r, edge_type := 1,
                        edge_w := rel_probability r ! 0\<rparr>) (relations (g\<lparr>relations := rels, edges := es\<rparr>))"
    by (simp add: es_def)
  moreover have "edges (g\<lparr>relations := rels, edges := es\<rparr>) = es" by simp
  ultimately show ?thesis by blast
qed

theorem BuildFromSVM_edges_of_relations_witness:
  "\<exists>g' es. BuildFromSVM edge_zero (Graph_init 3 [rel_01]) = Returns (g', es, length es mod 2 ^ 32)
     \<and> relations g' = relations (Graph_init 3 [rel_01]) @
         map (\<lambda>i. \<lparr>id_0 = 0, id_1 = i, groundTruth = - 1, rel_type = 1,
                    rel_probability = [Fin 1, Fin 0]\<rparr>)
           (filter (\<lambda>i. \<not> (\<exists>r\<in>set (relations (Graph_init 3 [rel_01])). id_0 r = 0 \<and> id_1 r = i))
              [1..<nodes (Graph_init 3 [rel_01])])
     \<and> es = edges (Graph_init 3 [rel_01]) @
         map (\<lambda>r. edge_zero\<lparr>edge_a := id_0 r, edge_b := id_1 r, edge_type := 1,
                             edge_w := rel_probability r ! 0\<rparr>) (relations g')
     \<and> edges g' = es"
  using BuildFromSVM_edges_of_relations [of "Graph_init 3 [rel_01]" edge_zero]
  by (simp add: Graph_init_def rel_01_def)

subsection \<open>An empty probability vector\<close>

text \<open>
  Claim C6, as the code has it. \<^verbatim>\<open>BuildFromSVM\<close> checks nothing and signals nothing:
  it never throws, and its behaviour is undefined (the unchecked read
  \<^verbatim>\<open>rel_probability[0]\<close> is out of range) exactly when some input relation has an empty
  probability vector; on every other input it returns.
\<close>

theorem BuildFromSVM_empty_probability:
  "BuildFromSVM e0 g \<noteq> Throws
   \<and> (BuildFromSVM e0 g = Undefined \<longleftrightarrow> (\<exists>r\<in>set (relations g). rel_probability r = []))"
  by (simp add: BuildFromSVM_eq Let_def)

theorem BuildFromSVM_empty_probability_witness:
  "BuildFromSVM edge_zero (Graph_init 2 [rel_empty]) = Undefined"
  using BuildFromSVM_empty_probability [of edge_zero "Graph_init 2 [rel_empty]"]
  by (simp add: Graph_init_def rel_empty_def)

text \<open>
  The claim as the spec states it (the call is rejected with an error) fails on a
  builder with two nodes and one relation whose probability vector is empty.
\<close>

theorem BuildFromSVM_empty_probability_not_rejected:
  "BuildFromSVM edge_zero (Graph_init 2 [rel_empty]) \<noteq> Throws"
  by (simp add: BuildFromSVM_def Graph_init_def connectivity_check_def connect_node_def
      node_found_def relation_edge_def rd_def upt_rec rel_empty_def)

subsection \<open>Edges of an earlier call\<close>

text \<open>
  Claim C4 at a failing input. \<^verbatim>\<open>BuildFromSVM\<close> does not clear the member \<^verbatim>\<open>edges\<close>:
  called twice on the builder constructed with two nodes and the relation between 0 and
  1, the second call returns the edge of the first call followed by the same edge again.
\<close>

theorem BuildFromSVM_twice:
  "BuildFromSVM edge_zero (Graph_init 2 [rel_01])
   = Returns
      (\<lparr>nodes = 2, relations = [rel_01],
        edges = [\<lparr>edge_a = 0, edge_b = 1, edge_type = 1, edge_w = Fin (9 / 10), edge_w2 = Fin 0\<rparr>],
        pcl_cloud = None, normals = None\<rparr>,
       [\<lparr>edge_a = 0, edge_b = 1, edge_type = 1, edge_w = Fin (9 / 10), edge_w2 = Fin 0\<rparr>], 1)
  \<and> BuildFromSVM edge_zero
      \<lparr>nodes = 2, relations = [rel_01],
        edges = [\<lparr>edge_a = 0, edge_b = 1, edge_type = 1, edge_w = Fin (9 / 10), edge_w2 = Fin 0\<rparr>],
        pcl_cloud = None, normals = None\<rparr>
   = Returns
      (\<lparr>nodes = 2, relations = [rel_01],
        edges = [\<lparr>edge_a = 0, edge_b = 1, edge_type = 1, edge_w = Fin (9 / 10), edge_w2 = Fin 0\<rparr>,
                 \<lparr>edge_a = 0, edge_b = 1, edge_type = 1, edge_w = Fin (9 / 10), edge_w2 = Fin 0\<rparr>],
        pcl_cloud = None, normals = None\<rparr>,
       [\<lparr>edge_a = 0, edge_b = 1, edge_type = 1, edge_w = Fin (9 / 10), edge_w2 = Fin 0\<rparr>,
        \<lparr>edge_a = 0, edge_b = 1, edge_type = 1, edge_w = Fin (9 / 10), edge_w2 = Fin 0\<rparr>], 2)"
  by (simp add: BuildFromSVM_def Graph_init_def connectivity_check_def connect_node_def
      node_found_def relation_edge_def rd_def upt_rec edge_zero_def rel_01_def)

section \<open>Properties of BuildFromPointCloud\<close>

subsection \<open>The laws of the arithmetic\<close>

lemma between_zero: "between 0 0 x \<longleftrightarrow> x = Fin 0"
  by (auto simp: between_def)

lemma roundsD:
  assumes "rounds f exact" and "x = Fin a" and "y = Fin b"
    and "real_of_int lo \<le> exact a b" and "exact a b \<le> real_of_int hi"
    and "\<bar>lo\<bar> \<le> 16777216" and "\<bar>hi\<bar> \<le> 16777216"
  shows "between lo hi (f x y)"
  using assms unfolding rounds_def by blast

lemma rounds_divD:
  assumes "rounds_div f" and "x = Fin a" and "y = Fin b" and "b \<noteq> 0"
    and "real_of_int lo \<le> a / b" and "a / b \<le> real_of_int hi"
    and "\<bar>lo\<bar> \<le> 16777216" and "\<bar>hi\<bar> \<le> 16777216"
  shows "between lo hi (f x y)"
  using assms unfolding rounds_div_def by blast

lemma rounds_sqrtD:
  assumes "rounds_sqrt f" and "x = Fin a" and "0 \<le> a"
    and "real_of_int lo \<le> sqrt a" and "sqrt a \<le> real_of_int hi"
    and "\<bar>lo\<bar> \<le> 16777216" and "\<bar>hi\<bar> \<le> 16777216"
  shows "between lo hi (f x)"
  using assms unfolding rounds_sqrt_def by blast

lemma channel_between:
  assumes "float_laws ops"
  shows "between 0 1 (channel ops v)"
proof -
  have "unat v < 2 ^ LENGTH(8)" by (rule unsigned_less)
  then have "unat v \<le> 255" by simp
  then have "real (unat v) \<le> real 255" by (rule of_nat_mono)
  then have le: "real (unat v) / 255 \<le> real_of_int 1" by simp
  have "0 \<le> real (unat v)" by (rule of_nat_0_le_iff)
  then have ge: "real_of_int 0 \<le> real (unat v) / 255" by simp
  have r: "rounds_div (d_div ops)" using assms by (simp add: float_laws_def)
  show ?thesis
    unfolding channel_def by (rule rounds_divD [OF r refl refl _ ge le]) simp_all
qed

lemma d_sub_between:
  assumes "float_laws ops" and "between 0 1 x" and "between 0 1 y"
  shows "between (- 1) 1 (d_sub ops x y)"
proof -
  from assms(2,3) obtain a b where ab: "x = Fin a" "0 \<le> a" "a \<le> 1" "y = Fin b" "0 \<le> b" "b \<le> 1"
    by (auto simp: between_def)
  have "rounds (d_sub ops) (\<lambda>a b. a - b)" using assms(1) by (simp add: float_laws_def)
  then show ?thesis
    by (rule roundsD [OF _ ab(1,4)]) (use ab in simp_all)
qed

lemma d_sub_same:
  assumes "float_laws ops" and "between 0 1 x"
  shows "d_sub ops x x = Fin 0"
proof -
  from assms(2) obtain a where a: "x = Fin a" by (auto simp: between_def)
  have "rounds (d_sub ops) (\<lambda>a b. a - b)" using assms(1) by (simp add: float_laws_def)
  then have "between 0 0 (d_sub ops x x)"
    by (rule roundsD [OF _ a a]) simp_all
  then show ?thesis by (simp add: between_zero)
qed

lemma d_mul_square:
  assumes "float_laws ops" and "between (- 1) 1 x"
  shows "between 0 1 (d_mul ops x x)"
proof -
  from assms(2) obtain a where a: "x = Fin a" "- 1 \<le> a" "a \<le> 1"
    by (auto simp: between_def)
  have "\<bar>a\<bar> \<le> 1" using a(2,3) by simp
  then have "\<bar>a\<bar> * \<bar>a\<bar> \<le> 1 * 1" by (intro mult_mono) simp_all
  then have le: "a * a \<le> 1" by simp
  have r: "rounds (d_mul ops) (\<lambda>a b. a * b)" using assms(1) by (simp add: float_laws_def)
  show ?thesis
    by (rule roundsD [OF r a(1) a(1)]) (use le in simp_all)
qed

lemma d_mul_zero:
  assumes "float_laws ops"
  shows "d_mul ops (Fin 0) (Fin 0) = Fin 0"
proof -
  have "rounds (d_mul ops) (\<lambda>a b. a * b)" using assms(1) by (simp add: float_laws_def)
  then have "between 0 0 (d_mul ops (Fin 0) (Fin 0))"
    by (rule roundsD [where a = 0 and b = 0]) simp_all
  then show ?thesis by (simp add: between_zero)
qed

lemma d_add_between:
  assumes "float_laws ops" and "between 0 m x" and "between 0 n y"
    and "0 \<le> m" and "m \<le> 2" and "0 \<le> n" and "n \<le> 2"
  shows "between 0 (m + n) (d_add ops x y)"
proof -
  from assms(2,3) obtain a b where ab: "x = Fin a" "0 \<le> a" "a \<le> real_of_int m"
    "y = Fin b" "0 \<le> b" "b \<le> real_of_int n"
    by (auto simp: between_def)
  have "rounds (d_add ops) (\<lambda>a b. a + b)" using assms(1) by (simp add: float_laws_def)
  then show ?thesis
    by (rule roundsD [OF _ ab(1,4)]) (use ab assms(4-7) in simp_all)
qed

lemma d_add_zero:
  assumes "float_laws ops"
  shows "d_add ops (Fin 0) (Fin 0) = Fin 0"
  using d_add_between [OF assms, of 0 "Fin 0" 0 "Fin 0"] by (simp add: between_zero)

lemma d_sqrt_between:
  assumes "float_laws ops" and "between 0 3 x"
  shows "between 0 2 (d_sqrt ops x)"
proof -
  from assms(2) obtain a where a: "x = Fin a" "0 \<le> a" "a \<le> 3"
    by (auto simp: between_def)
  have "sqrt a \<le> sqrt 4" using a(3) by (intro real_sqrt_le_mono) simp
  then have "sqrt a \<le> 2" by simp
  moreover have "rounds_sqrt (d_sqrt ops)" using assms(1) by (simp add: float_laws_def)
  ultimately show ?thesis
    by (intro rounds_sqrtD [OF _ a(1)]) (use a in simp_all)
qed

lemma d_sqrt_zero:
  assumes "float_laws ops"
  shows "d_sqrt ops (Fin 0) = Fin 0"
proof -
  have "rounds_sqrt (d_sqrt ops)" using assms(1) by (simp add: float_laws_def)
  then have "between 0 0 (d_sqrt ops (Fin 0))"
    by (rule rounds_sqrtD [where a = 0]) simp_all
  then show ?thesis by (simp add: between_zero)
qed

lemma s_sub_same:
  assumes "float_laws ops"
  shows "s_sub ops (Fin a) (Fin a) = Fin 0"
proof -
  have "rounds (s_sub ops) (\<lambda>a b. a - b)" using assms(1) by (simp add: float_laws_def)
  then have "between 0 0 (s_sub ops (Fin a) (Fin a))"
    by (rule roundsD [where a = a and b = a]) simp_all
  then show ?thesis by (simp add: between_zero)
qed

lemma s_div_unit:
  assumes "float_laws ops" and "0 \<le> d" and "d \<le> m" and "m \<noteq> 0"
  shows "between 0 1 (s_div ops (Fin d) (Fin m))"
proof -
  have "rounds_div (s_div ops)" using assms(1) by (simp add: float_laws_def)
  moreover have "0 \<le> d / m" "d / m \<le> 1" using assms(2-4) by simp_all
  ultimately show ?thesis
    by (intro rounds_divD [where a = d and b = m]) (use assms(4) in simp_all)
qed

text \<open>The arithmetic of the examples obeys the laws.\<close>

lemma fmul_one: "fmul x (Fin 1) = x"
  by (cases x) (simp_all add: signed_inf_def)

lemma acos_example_range:
  "acos_example x = NaN \<or> (\<exists>y. acos_example x = Fin y \<and> 0 \<le> y \<and> y \<le> float_pi)"
proof (cases x)
  case (Fin a)
  have "0 \<le> float_pi" by (simp add: float_pi_def)
  moreover have "0 \<le> min (arccos a) float_pi" if "- 1 < a" "a < 1"
    using that arccos_lbound [of a] by (simp add: float_pi_def)
  ultimately show ?thesis using Fin by simp
qed simp_all

lemma float_laws_example: "float_laws example_ops"
proof -
  have "\<exists>y::real. Fin (13170115 / 8388608) = Fin y \<and> 0 \<le> y \<and> y \<le> float_pi"
    by (intro exI [of _ "13170115 / 8388608"]) (simp add: float_pi_def)
  then show ?thesis
    unfolding float_laws_def
    by (simp add: example_ops_def rounds_def rounds_div_def rounds_sqrt_def between_def fsub_def
        fmul_one acos_example_range signed_inf_def)
qed

subsection \<open>The colour distance\<close>

lemma color_distance_between:
  assumes "float_laws ops"
  shows "between 0 2 (color_distance ops p q)"
proof -
  note sq = d_mul_square [OF assms d_sub_between [OF assms channel_between channel_between,
        OF assms assms]]
  have "between 0 (1 + 1) (d_add ops
       (d_mul ops (d_sub ops (channel ops (pt_r p)) (channel ops (pt_r q)))
                  (d_sub ops (channel ops (pt_r p)) (channel ops (pt_r q))))
       (d_mul ops (d_sub ops (channel ops (pt_g p)) (channel ops (pt_g q)))
                  (d_sub ops (channel ops (pt_g p)) (channel ops (pt_g q)))))"
    by (rule d_add_between [OF assms sq sq]) simp_all
  then have "between 0 (2 + 1) (d_add ops (d_add ops
       (d_mul ops (d_sub ops (channel ops (pt_r p)) (channel ops (pt_r q)))
                  (d_sub ops (channel ops (pt_r p)) (channel ops (pt_r q))))
       (d_mul ops (d_sub ops (channel ops (pt_g p)) (channel ops (pt_g q)))
                  (d_sub ops (channel ops (pt_g p)) (channel ops (pt_g q)))))
       (d_mul ops (d_sub ops (channel ops (pt_b p)) (channel ops (pt_b q)))
                  (d_sub ops (channel ops (pt_b p)) (channel ops (pt_b q)))))"
    by (intro d_add_between [OF assms _ sq]) simp_all
  then show ?thesis
    unfolding color_distance_def by (intro d_sqrt_between [OF assms]) simp
qed

lemma color_distance_nonneg:
  assumes "float_laws ops"
  shows "\<exists>x. color_distance ops p q = Fin x \<and> 0 \<le> x"
  using color_distance_between [OF assms, of p q] by (auto simp: between_def)

lemma color_distance_same:
  assumes "float_laws ops" and "pt_r p = pt_r q" and "pt_g p = pt_g q" and "pt_b p = pt_b q"
  shows "color_distance ops p q = Fin 0"
  unfolding color_distance_def assms(2-4)
  by (simp add: d_sub_same [OF assms(1) channel_between [OF assms(1)]]
      d_mul_zero [OF assms(1)] d_add_zero [OF assms(1)] d_sqrt_zero [OF assms(1)])

subsection \<open>Reads and loops\<close>

lemma obind_ReturnsE:
  assumes "obind m f = Returns y"
  obtains x where "m = Returns x" and "f x = Returns y"
  using assms by (auto simp: obind_Returns_iff)

lemma rd_Returns_iff: "rd xs i = Returns x \<longleftrightarrow> i < length xs \<and> x = xs ! i"
  by (auto simp: rd_def)

lemma for_each_invariant:
  assumes "for_each js body s = Returns s'" and "P s"
    and "\<And>i t t'. i \<in> set js \<Longrightarrow> P t \<Longrightarrow> body i t = Returns t' \<Longrightarrow> P t'"
  shows "P s'"
  using assms
proof (induction js arbitrary: s)
  case Nil
  then show ?case by simp
next
  case (Cons j js)
  from Cons.prems(1) obtain t where t: "body j s = Returns t" "for_each js body t = Returns s'"
    by (auto simp: obind_Returns_iff)
  have Pt: "P t" using Cons.prems(3) [of j s t] Cons.prems(2) t(1) by simp
  show ?case
  proof (rule Cons.IH [OF t(2) Pt])
    fix i u u'
    assume "i \<in> set js" "P u" "body i u = Returns u'"
    then show "P u'" using Cons.prems(3) [of i u u'] by simp
  qed
qed

lemma for_each_concat:
  assumes "for_each js body s = Returns s'"
    and "\<And>i t t'. i \<in> set js \<Longrightarrow> body i t = Returns t' \<Longrightarrow> f t' = f t @ out i"
  shows "f s' = f s @ concat (map out js)"
  using assms
proof (induction js arbitrary: s)
  case Nil
  then show ?case by simp
next
  case (Cons j js)
  from Cons.prems(1) obtain t where t: "body j s = Returns t" "for_each js body t = Returns s'"
    by (auto simp: obind_Returns_iff)
  have "f t = f s @ out j" using Cons.prems(2) [of j s t] t(1) by simp
  moreover have "f s' = f t @ concat (map out js)"
  proof (rule Cons.IH [OF t(2)])
    fix i u u'
    assume "i \<in> set js" "body i u = Returns u'"
    then show "f u' = f u @ out i" using Cons.prems(2) [of i u u'] by simp
  qed
  ultimately show ?case by simp
qed

lemma for_each_total:
  assumes "\<And>i s. i \<in> set js \<Longrightarrow> \<exists>s'. body i s = Returns s'"
  shows "\<exists>s'. for_each js body s = Returns s'"
  using assms
proof (induction js arbitrary: s)
  case Nil
  then show ?case by simp
next
  case (Cons j js)
  from Cons.prems [of j s] obtain t where t: "body j s = Returns t" by auto
  have "\<exists>s'. for_each js body t = Returns s'"
    by (rule Cons.IH) (simp add: Cons.prems)
  with t show ?case by simp
qed

lemma max_curvature_Returns:
  assumes "length ns \<le> length (points c)"
  shows "\<exists>v. max_curvature c ns = Returns v"
  unfolding max_curvature_def
  by (rule for_each_total) (use assms in \<open>auto simp: curvature_step_def rd_def\<close>)

subsection \<open>The first pass: colour distances and their maximum\<close>

lemma color_step_ReturnsE:
  assumes "color_step ops c idx j k st = Returns st'"
  obtains p q where "p \<in> set (points c)" and "q \<in> set (points c)"
    and "st' = ((fst st)((idx, k) \<mapsto> color_distance ops p q),
                if fgt (color_distance ops p q) (snd st) then color_distance ops p q else snd st)"
proof -
  from assms have i: "idx < length (points c)" and j: "j < length (points c)"
    and st': "st' = ((fst st)((idx, k) \<mapsto> color_distance ops (points c ! idx) (points c ! j)),
                if fgt (color_distance ops (points c ! idx) (points c ! j)) (snd st)
                then color_distance ops (points c ! idx) (points c ! j) else snd st)"
    by (auto simp: color_step_def obind_Returns_iff Let_def rd_Returns_iff)
  from i j have "points c ! idx \<in> set (points c)" "points c ! j \<in> set (points c)"
    by simp_all
  then show thesis using st' by (rule that)
qed

text \<open>
  A property of the table and the maximum that holds at the start, that every stored
  colour distance keeps, and that the 1.0 stored in the first column keeps, holds after
  the pass.
\<close>

lemma color_cell_invariant:
  assumes "color_cell ops c col row st = Returns st'" and "P st"
    and step: "\<And>idx j k t t'. color_step ops c idx j k t = Returns t' \<Longrightarrow> P t \<Longrightarrow> P t'"
    and first: "\<And>row t. P t \<Longrightarrow> P ((fst t)((GetIdx c 0 row, 3) \<mapsto> Fin 1), snd t)"
  shows "P st'"
proof -
  let ?wd = "unat (width c)" and ?idx = "GetIdx c col row"
  from assms(1) obtain s1 s2 s3 where
    s1: "color_step ops c ?idx (?idx + 1) 0 st = Returns s1" and
    s2: "color_step ops c ?idx (?idx + ?wd) 1 s1 = Returns s2" and
    s3: "color_step ops c ?idx (?idx + ?wd + 1) 2 s2 = Returns s3" and
    last: "(if col \<noteq> 0 then color_step ops c ?idx (?idx + ?wd - 1) 3 s3
            else Returns ((fst s3)((?idx, 3) \<mapsto> Fin 1), snd s3)) = Returns st'"
    by (auto simp: color_cell_def Let_def obind_Returns_iff)
  have ok3: "P s3"
    using step [OF s3] step [OF s2] step [OF s1] assms(2) by blast
  show ?thesis
  proof (cases "col = 0")
    case False
    with last ok3 show ?thesis by (auto dest: step)
  next
    case True
    with last have st': "st' = ((fst s3)((GetIdx c 0 row, 3) \<mapsto> Fin 1), snd s3)" by simp
    show ?thesis unfolding st' by (rule first [OF ok3])
  qed
qed

lemma color_pass_invariant:
  assumes "color_pass ops c = Returns st" and "P (Map.empty, Fin 0)"
    and step: "\<And>idx j k t t'. color_step ops c idx j k t = Returns t' \<Longrightarrow> P t \<Longrightarrow> P t'"
    and first: "\<And>row t. P t \<Longrightarrow> P ((fst t)((GetIdx c 0 row, 3) \<mapsto> Fin 1), snd t)"
  shows "P st"
proof -
  have cell: "P t'" if "color_cell ops c col row t = Returns t'" and "P t" for col row t t'
    using that step first by (rule color_cell_invariant)
  have row: "P t'"
    if "for_each [0..<unat (width c - 1)] (\<lambda>col. color_cell ops c col row) t = Returns t'"
      and "P t" for row t t'
    using that by (rule for_each_invariant) (rule cell)
  show ?thesis
    using assms(1) [unfolded color_pass_def] assms(2)
    by (rule for_each_invariant) (rule row)
qed

lemma color_step_ok:
  assumes "float_laws ops"
    and "color_step ops c idx j k st = Returns st'" and "color_ok wd st"
  shows "color_ok wd st'"
proof -
  from assms(2) obtain p q where st': "st' = ((fst st)((idx, k) \<mapsto> color_distance ops p q),
      if fgt (color_distance ops p q) (snd st) then color_distance ops p q else snd st)"
    by (rule color_step_ReturnsE)
  obtain d where d: "color_distance ops p q = Fin d" "0 \<le> d"
    using color_distance_nonneg [OF assms(1)] by blast
  from assms(3) obtain m where m: "snd st = Fin m" "0 \<le> m"
    and tbl: "\<And>i k v. fst st (i, k) = Some v \<Longrightarrow>
           \<exists>x. v = Fin x \<and> 0 \<le> x \<and> (x \<le> m \<or> (k = 3 \<and> i mod wd = 0 \<and> x = 1))"
    unfolding color_ok_def by blast
  have snd': "snd st' = Fin (max m d)"
    by (simp add: st' d m fgt_def max_def)
  have "\<exists>x. v = Fin x \<and> 0 \<le> x \<and> (x \<le> max m d \<or> (k' = 3 \<and> i mod wd = 0 \<and> x = 1))"
    if "fst st' (i, k') = Some v" for i k' v
  proof (cases "(i, k') = (idx, k)")
    case True
    with that have "v = Fin d" by (simp add: st' d)
    then show ?thesis using d by simp
  next
    case False
    with that have "fst st (i, k') = Some v" by (simp add: st' split: if_splits)
    from tbl [OF this] show ?thesis by (auto simp: max_def)
  qed
  then show ?thesis
    unfolding color_ok_def using snd' m(2) d(2) by (intro exI [of _ "max m d"]) simp
qed

lemma color_pass_ok:
  assumes "float_laws ops" and "color_pass ops c = Returns st"
  shows "color_ok (unat (width c)) st"
proof (rule color_pass_invariant [OF assms(2)])
  show "color_ok (unat (width c)) (Map.empty, Fin 0)"
    by (simp add: color_ok_def)
next
  fix idx j k t t'
  assume "color_step ops c idx j k t = Returns t'" and "color_ok (unat (width c)) t"
  then show "color_ok (unat (width c)) t'" by (rule color_step_ok [OF assms(1)])
next
  fix row t
  assume ok: "color_ok (unat (width c)) t"
  have "GetIdx c 0 row mod unat (width c) = 0" by (simp add: GetIdx_def)
  with ok show "color_ok (unat (width c)) ((fst t)((GetIdx c 0 row, 3) \<mapsto> Fin 1), snd t)"
    unfolding color_ok_def by (auto split: if_splits)
qed

text \<open>A cloud of one colour: every colour distance is zero and so is their maximum.\<close>

lemma color_pass_zero:
  assumes "float_laws ops" and "uniform_color c r g b" and "color_pass ops c = Returns st"
  shows "color_zero (unat (width c)) st"
proof (rule color_pass_invariant [OF assms(3)])
  show "color_zero (unat (width c)) (Map.empty, Fin 0)"
    by (simp add: color_zero_def)
next
  fix idx j k t t'
  assume step: "color_step ops c idx j k t = Returns t'" and ok: "color_zero (unat (width c)) t"
  from step obtain p q where pq: "p \<in> set (points c)" "q \<in> set (points c)"
    and t': "t' = ((fst t)((idx, k) \<mapsto> color_distance ops p q),
                if fgt (color_distance ops p q) (snd t) then color_distance ops p q else snd t)"
    by (rule color_step_ReturnsE)
  from pq assms(2) have "pt_r p = pt_r q" "pt_g p = pt_g q" "pt_b p = pt_b q"
    by (simp_all add: uniform_color_def list_all_iff)
  then have "color_distance ops p q = Fin 0"
    by (rule color_distance_same [OF assms(1)])
  with ok show "color_zero (unat (width c)) t'"
    unfolding color_zero_def t' by (auto simp: fgt_def split: if_splits)
next
  fix row t
  assume ok: "color_zero (unat (width c)) t"
  have "GetIdx c 0 row mod unat (width c) = 0" by (simp add: GetIdx_def)
  with ok show "color_zero (unat (width c)) ((fst t)((GetIdx c 0 row, 3) \<mapsto> Fin 1), snd t)"
    unfolding color_zero_def by (auto split: if_splits)
qed

subsection \<open>The second pass: one cell\<close>

lemma depth_gate_Returns:
  "depth_gate ops c idx j = Returns b \<Longrightarrow> b = admits ops c idx j"
  by (auto simp: depth_gate_def admits_def z_adapt_def obind_Returns_iff rd_Returns_iff Let_def)

lemma normals_angle_Returns:
  "normals_angle ops c ns idx j = Returns a \<Longrightarrow>
   (if \<not> isnan a then a else lit_157 ops) = angle_weight ops c ns idx j"
  by (auto simp: normals_angle_def angle_weight_def obind_Returns_iff rd_Returns_iff Let_def isnan_def
      split: if_splits)

lemma edge_dir_Returns:
  assumes "edge_dir ops c ns tbl mc idx j k st = Returns st'"
  shows "\<exists>d. tbl (idx, k) = Some d
          \<and> fst st' = dir_edge ops c ns idx j (s_div ops d mc)
          \<and> snd st' = snd st @ (if admits ops c idx j then [fst st'] else [])"
proof -
  from assms obtain d where d: "tbl (idx, k) = Some d"
    by (auto simp: edge_dir_def split: option.splits)
  define e where "e = (\<lambda>a. (fst st)\<lparr>edge_a := idx, edge_b := j, edge_type := 1,
                              edge_w := s_div ops d mc,
                              edge_w2 := (if \<not> isnan a then a else lit_157 ops)\<rparr>)"
  have "obind (normals_angle ops c ns idx j) (\<lambda>a.
          obind (depth_gate ops c idx j) (\<lambda>b.
            Returns (e a, if b then snd st @ [e a] else snd st))) = Returns st'"
    using assms d unfolding edge_dir_def Let_def e_def by simp
  then obtain a where a: "normals_angle ops c ns idx j = Returns a"
    and r: "obind (depth_gate ops c idx j) (\<lambda>b.
            Returns (e a, if b then snd st @ [e a] else snd st)) = Returns st'"
    by (rule obind_ReturnsE)
  from r obtain b where b: "depth_gate ops c idx j = Returns b"
    and r': "Returns (e a, if b then snd st @ [e a] else snd st) = Returns st'"
    by (rule obind_ReturnsE)
  from r' have st': "st' = (e a, if b then snd st @ [e a] else snd st)" by simp
  have e: "e a = dir_edge ops c ns idx j (s_div ops d mc)"
    unfolding e_def dir_edge_def normals_angle_Returns [OF a, symmetric] by (cases "fst st") simp
  show ?thesis
    using d depth_gate_Returns [OF b] by (simp add: st' e)
qed

lemma GetIdx_mod: "col < unat (width c) \<Longrightarrow> GetIdx c col row mod unat (width c) = col"
  by (simp add: GetIdx_def)

lemma graph_cell_width: "graph_cell ops c ns tbl mc e0 col row es = Returns es' \<Longrightarrow> width c \<noteq> 0"
  by (auto simp: graph_cell_def Let_def obind_Returns_iff split: if_splits)

lemma loop_bound:
  "width c \<noteq> 0 \<Longrightarrow> col < unat (width c - 1) \<Longrightarrow>
   col < unat (width c) \<and> col \<noteq> unat (width c) - 1"
  by (simp add: unat_minus_one)

lemma graph_cell_Returns:
  assumes ret: "graph_cell ops c ns tbl mc e0 col row es = Returns es'"
    and col: "col < unat (width c)"
  shows "es' = es @ cell_edges ops c ns (color_weight ops tbl mc) col row
       \<and> tbl (GetIdx c col row, 0) \<noteq> None \<and> tbl (GetIdx c col row, 1) \<noteq> None
       \<and> tbl (GetIdx c col row, 2) \<noteq> None
       \<and> (col \<noteq> 0 \<longrightarrow> tbl (GetIdx c col row, 3) \<noteq> None)"
proof -
  let ?wd = "unat (width c)" and ?idx = "GetIdx c col row"
  have wd: "?wd \<noteq> 0" using col by simp
  have m: "?idx mod ?wd = col" using col by (rule GetIdx_mod)
  from ret obtain s1 where
    s1: "edge_dir ops c ns tbl mc ?idx (?idx + 1) 0 (e0, es) = Returns s1" and
    r1: "obind (edge_dir ops c ns tbl mc ?idx (?idx + ?wd) 1 s1) (\<lambda>st.
      obind (edge_dir ops c ns tbl mc ?idx (?idx + ?wd + 1) 2 st) (\<lambda>st.
        if col \<noteq> 0
        then obind (edge_dir ops c ns tbl mc ?idx (?idx + ?wd - 1) 3 st) (\<lambda>st. Returns (snd st))
        else obind (depth_gate ops c ?idx (?idx + ?wd - 1)) (\<lambda>admit.
               Returns (if admit then snd st @ [(fst st)\<lparr>edge_w := Fin 1\<rparr>] else snd st))))
      = Returns es'"
    unfolding graph_cell_def Let_def m using wd by (elim obind_ReturnsE) simp
  from r1 obtain s2 where
    s2: "edge_dir ops c ns tbl mc ?idx (?idx + ?wd) 1 s1 = Returns s2" and
    r2: "obind (edge_dir ops c ns tbl mc ?idx (?idx + ?wd + 1) 2 s2) (\<lambda>st.
        if col \<noteq> 0
        then obind (edge_dir ops c ns tbl mc ?idx (?idx + ?wd - 1) 3 st) (\<lambda>st. Returns (snd st))
        else obind (depth_gate ops c ?idx (?idx + ?wd - 1)) (\<lambda>admit.
               Returns (if admit then snd st @ [(fst st)\<lparr>edge_w := Fin 1\<rparr>] else snd st)))
      = Returns es'"
    by (rule obind_ReturnsE)
  from r2 obtain s3 where
    s3: "edge_dir ops c ns tbl mc ?idx (?idx + ?wd + 1) 2 s2 = Returns s3" and
    last: "(if col \<noteq> 0
        then obind (edge_dir ops c ns tbl mc ?idx (?idx + ?wd - 1) 3 s3) (\<lambda>st. Returns (snd st))
        else obind (depth_gate ops c ?idx (?idx + ?wd - 1)) (\<lambda>admit.
               Returns (if admit then snd s3 @ [(fst s3)\<lparr>edge_w := Fin 1\<rparr>] else snd s3)))
      = Returns es'"
    by (rule obind_ReturnsE)
  from edge_dir_Returns [OF s1] obtain d0 where d0: "tbl (?idx, 0) = Some d0"
    and e1: "fst s1 = dir_edge ops c ns ?idx (?idx + 1) (s_div ops d0 mc)"
    and l1: "snd s1 = es @ (if admits ops c ?idx (?idx + 1) then [fst s1] else [])" by auto
  from edge_dir_Returns [OF s2] obtain d1 where d1: "tbl (?idx, 1) = Some d1"
    and e2: "fst s2 = dir_edge ops c ns ?idx (?idx + ?wd) (s_div ops d1 mc)"
    and l2: "snd s2 = snd s1 @ (if admits ops c ?idx (?idx + ?wd) then [fst s2] else [])" by auto
  from edge_dir_Returns [OF s3] obtain d2 where d2: "tbl (?idx, 2) = Some d2"
    and e3: "fst s3 = dir_edge ops c ns ?idx (?idx + ?wd + 1) (s_div ops d2 mc)"
    and l3: "snd s3 = snd s2 @ (if admits ops c ?idx (?idx + ?wd + 1) then [fst s3] else [])" by auto
  show ?thesis
  proof (cases "col = 0")
    case True
    with last have "obind (depth_gate ops c ?idx (?idx + ?wd - 1)) (\<lambda>admit.
               Returns (if admit then snd s3 @ [(fst s3)\<lparr>edge_w := Fin 1\<rparr>] else snd s3))
      = Returns es'" by simp
    then obtain b where b: "depth_gate ops c ?idx (?idx + ?wd - 1) = Returns b"
      and r: "Returns (if b then snd s3 @ [(fst s3)\<lparr>edge_w := Fin 1\<rparr>] else snd s3) = Returns es'"
      by (rule obind_ReturnsE)
    from r have es': "es' = (if b then snd s3 @ [(fst s3)\<lparr>edge_w := Fin 1\<rparr>] else snd s3)"
      by simp
    show ?thesis
      using True d0 d1 d2 depth_gate_Returns [OF b]
      by (simp add: es' l3 l2 l1 e1 e2 e3 cell_edges_def Let_def color_weight_def)
  next
    case False
    with last have "obind (edge_dir ops c ns tbl mc ?idx (?idx + ?wd - 1) 3 s3) (\<lambda>st. Returns (snd st))
      = Returns es'" by simp
    then obtain s4 where s4: "edge_dir ops c ns tbl mc ?idx (?idx + ?wd - 1) 3 s3 = Returns s4"
      and r: "Returns (snd s4) = Returns es'"
      by (rule obind_ReturnsE)
    from r have es': "es' = snd s4" by simp
    from edge_dir_Returns [OF s4] obtain d3 where d3: "tbl (?idx, 3) = Some d3"
      and e4: "fst s4 = dir_edge ops c ns ?idx (?idx + ?wd - 1) (s_div ops d3 mc)"
      and l4: "snd s4 = snd s3 @ (if admits ops c ?idx (?idx + ?wd - 1) then [fst s4] else [])" by auto
    show ?thesis
      using False d0 d1 d2 d3
      by (simp add: es' l4 l3 l2 l1 e1 e2 e3 e4 cell_edges_def Let_def color_weight_def)
  qed
qed

subsection \<open>The second pass: the whole grid\<close>

lemma graph_pass_Returns:
  assumes "graph_pass ops c ns tbl mc e0 es = Returns es'"
  shows "es' = es @ concat (map (\<lambda>row. concat (map (\<lambda>col. cell_edges ops c ns (color_weight ops tbl mc) col row)
                      [0..<unat (width c - 1)])) [0..<unat (height c - 1)])"
proof -
  have cell: "id t' = id t @ cell_edges ops c ns (color_weight ops tbl mc) col row"
    if "col \<in> set [0..<unat (width c - 1)]" "graph_cell ops c ns tbl mc e0 col row t = Returns t'"
    for col row t t'
    using graph_cell_Returns [OF that(2), THEN conjunct1] loop_bound [OF graph_cell_width [OF that(2)], of col] that(1)
    by simp
  have row: "id t' = id t @ concat (map (\<lambda>col. cell_edges ops c ns (color_weight ops tbl mc) col row) [0..<unat (width c - 1)])"
    if "for_each [0..<unat (width c - 1)] (\<lambda>col. graph_cell ops c ns tbl mc e0 col row) t = Returns t'"
    for row t t'
    using that by (rule for_each_concat) (rule cell)
  have "id es' = id es @ concat (map (\<lambda>row. concat (map (\<lambda>col. cell_edges ops c ns (color_weight ops tbl mc) col row)
                      [0..<unat (width c - 1)])) [0..<unat (height c - 1)])"
    using assms [unfolded graph_pass_def] by (rule for_each_concat) (rule row)
  then show ?thesis by simp
qed

lemma BuildFromPointCloud_ReturnsE:
  assumes "BuildFromPointCloud ops e0 g c ns = Returns (g', es, n)"
  obtains tbl mc where "color_pass ops c = Returns (tbl, mc)"
    and "graph_pass ops c ns tbl mc e0 [] = Returns es"
    and "g' = g\<lparr>pcl_cloud := Some c, normals := Some ns, edges := es\<rparr>"
    and "n = length es mod 2 ^ 32"
proof -
  from assms obtain v where "max_curvature c ns = Returns v"
    and r: "obind (color_pass ops c) (\<lambda>cm.
     obind (graph_pass ops c ns (fst cm) (snd cm) e0 []) (\<lambda>es.
       Returns (g\<lparr>pcl_cloud := Some c, normals := Some ns, edges := es\<rparr>,
                es, length es mod 2 ^ 32))) = Returns (g', es, n)"
    unfolding BuildFromPointCloud_def by (rule obind_ReturnsE)
  from r obtain cm where cm: "color_pass ops c = Returns cm"
    and r': "obind (graph_pass ops c ns (fst cm) (snd cm) e0 []) (\<lambda>es.
       Returns (g\<lparr>pcl_cloud := Some c, normals := Some ns, edges := es\<rparr>,
                es, length es mod 2 ^ 32)) = Returns (g', es, n)"
    by (rule obind_ReturnsE)
  from r' obtain es0 where es0: "graph_pass ops c ns (fst cm) (snd cm) e0 [] = Returns es0"
    and r'': "Returns (g\<lparr>pcl_cloud := Some c, normals := Some ns, edges := es0\<rparr>,
                es0, length es0 mod 2 ^ 32) = Returns (g', es, n)"
    by (rule obind_ReturnsE)
  from r'' have "es0 = es" "g' = g\<lparr>pcl_cloud := Some c, normals := Some ns, edges := es\<rparr>"
    "n = length es mod 2 ^ 32" by auto
  with cm es0 that [of "fst cm" "snd cm"] show thesis by simp
qed

subsection \<open>Ranges of the weights\<close>

lemma angle_weight_range:
  assumes "float_laws ops"
  shows "\<exists>y. angle_weight ops c ns idx j = Fin y \<and> 0 \<le> y \<and> y \<le> float_pi"
proof -
  from assms have lit: "\<exists>y. lit_157 ops = Fin y \<and> 0 \<le> y \<and> y \<le> float_pi"
    and ac: "\<And>x. f_acos ops x = NaN \<or> (\<exists>y. f_acos ops x = Fin y \<and> 0 \<le> y \<and> y \<le> float_pi)"
    by (simp_all add: float_laws_def)
  show ?thesis
    using lit ac [of "Dot3 ops (normal (ns ! idx)) (normal (ns ! j))"]
    by (auto simp: angle_weight_def isnan_def Let_def)
qed

lemma dir_edge_ok:
  assumes "float_laws ops"
    and "color_ok wd (tbl, mc)" and "tbl (idx, k) = Some d" and "k = 3 \<longrightarrow> idx mod wd \<noteq> 0"
  shows "weights_ok float_pi mc (dir_edge ops c ns idx j (s_div ops d mc))"
proof -
  from assms(2) obtain m where m: "mc = Fin m" "0 \<le> m"
    and tbl: "\<And>i k v. tbl (i, k) = Some v \<Longrightarrow>
           \<exists>x. v = Fin x \<and> 0 \<le> x \<and> (x \<le> m \<or> (k = 3 \<and> i mod wd = 0 \<and> x = 1))"
    unfolding color_ok_def by auto
  from tbl [OF assms(3)] assms(4) obtain x where x: "d = Fin x" "0 \<le> x" "x \<le> m"
    by auto
  have w: "\<exists>q. s_div ops d mc = Fin q \<and> 0 \<le> q \<and> q \<le> 1" if "mc \<noteq> Fin 0"
  proof -
    from that m have "m \<noteq> 0" by simp
    from s_div_unit [OF assms(1) x(2,3) this] show ?thesis
      by (simp add: between_def x m)
  qed
  show ?thesis
    unfolding weights_ok_def dir_edge_def using w angle_weight_range [OF assms(1), of c ns idx j]
    by simp
qed

lemma special_edge_ok:
  assumes "weights_ok hi mc e"
  shows "weights_ok hi mc (e\<lparr>edge_w := Fin 1\<rparr>)"
  using assms by (simp add: weights_ok_def)

lemma cell_edges_ok:
  assumes laws: "float_laws ops"
    and ok: "color_ok (unat (width c)) (tbl, mc)" and col: "col < unat (width c)"
    and d0: "tbl (GetIdx c col row, 0) \<noteq> None" and d1: "tbl (GetIdx c col row, 1) \<noteq> None"
    and d2: "tbl (GetIdx c col row, 2) \<noteq> None"
    and d3: "col \<noteq> 0 \<longrightarrow> tbl (GetIdx c col row, 3) \<noteq> None"
    and e: "e \<in> set (cell_edges ops c ns (color_weight ops tbl mc) col row)"
  shows "weights_ok float_pi mc e"
proof -
  let ?wd = "unat (width c)" and ?idx = "GetIdx c col row"
  have m: "?idx mod ?wd = col" using col by (rule GetIdx_mod)
  have reg: "weights_ok float_pi mc (dir_edge ops c ns ?idx j (color_weight ops tbl mc ?idx k))"
    if "tbl (?idx, k) \<noteq> None" "k = 3 \<longrightarrow> col \<noteq> 0" for j k
  proof -
    from that(1) obtain d where d: "tbl (?idx, k) = Some d" by auto
    have "weights_ok float_pi mc (dir_edge ops c ns ?idx j (s_div ops d mc))"
      using laws ok d by (rule dir_edge_ok) (use that(2) m in simp)
    then show ?thesis using d by (simp add: color_weight_def)
  qed
  have r0: "weights_ok float_pi mc (dir_edge ops c ns ?idx (?idx + 1) (color_weight ops tbl mc ?idx 0))"
    using d0 by (intro reg) simp_all
  have r1: "weights_ok float_pi mc (dir_edge ops c ns ?idx (?idx + ?wd) (color_weight ops tbl mc ?idx 1))"
    using d1 by (intro reg) simp_all
  have r2: "weights_ok float_pi mc (dir_edge ops c ns ?idx (?idx + ?wd + 1) (color_weight ops tbl mc ?idx 2))"
    using d2 by (intro reg) simp_all
  have r3: "weights_ok float_pi mc
      (if col \<noteq> 0 then dir_edge ops c ns ?idx (?idx + ?wd - 1) (color_weight ops tbl mc ?idx 3)
       else (dir_edge ops c ns ?idx (?idx + ?wd + 1) (color_weight ops tbl mc ?idx 2))\<lparr>edge_w := Fin 1\<rparr>)"
  proof (cases "col = 0")
    case True
    with r2 show ?thesis by (simp add: special_edge_ok)
  next
    case False
    with d3 show ?thesis by (simp add: reg)
  qed
  from e r0 r1 r2 r3 show ?thesis
    by (auto simp: cell_edges_def Let_def split: if_splits)
qed

lemma cell_edges_source:
  assumes "e \<in> set (cell_edges ops c ns wt col row)"
  shows "edge_a e = GetIdx c col row \<and> \<not> isnan (pt_z (points c ! GetIdx c col row))"
  using assms by (auto simp: cell_edges_def Let_def dir_edge_def admits_def split: if_splits)

lemma graph_pass_weights:
  assumes laws: "float_laws ops"
    and ret: "graph_pass ops c ns tbl mc e0 [] = Returns es"
    and ok: "color_ok (unat (width c)) (tbl, mc)"
  shows "\<forall>e\<in>set es. weights_ok float_pi mc e"
proof -
  let ?P = "\<lambda>es. \<forall>e\<in>set es. weights_ok float_pi mc e"
  have cell: "?P t'"
    if "col \<in> set [0..<unat (width c - 1)]" "?P t"
      "graph_cell ops c ns tbl mc e0 col row t = Returns t'" for col row t t'
  proof -
    have col: "col < unat (width c)"
      using loop_bound [OF graph_cell_width [OF that(3)], of col] that(1) by simp
    from graph_cell_Returns [OF that(3) col] cell_edges_ok [OF laws ok col] that(2)
    show ?thesis by auto
  qed
  have row: "?P t'"
    if "?P t" "for_each [0..<unat (width c - 1)] (\<lambda>col. graph_cell ops c ns tbl mc e0 col row) t
          = Returns t'" for row t t'
    using that(2,1) by (rule for_each_invariant) (rule cell)
  have "?P []" by simp
  with ret [unfolded graph_pass_def] show ?thesis
    by (rule for_each_invariant) (rule row)
qed

subsection \<open>Clouds on which the method returns\<close>

text \<open>
  The second pass reads from \<^verbatim>\<open>color_dist\<close> what the first pass wrote for the same
  cell, and every index read lies below \<open>width * height\<close>. So the method returns
  whenever width and height are not zero, there are at least \<open>width * height\<close>
  normals, and at least as many points as normals.
\<close>

lemma for_each_reach:
  assumes "for_each js body s = Returns s'" and "j \<in> set js"
    and keep: "\<And>i t t'. body i t = Returns t' \<Longrightarrow> Q t \<Longrightarrow> Q t'"
    and make: "\<And>t t'. body j t = Returns t' \<Longrightarrow> Q t'"
  shows "Q s'"
  using assms(1,2)
proof (induction js arbitrary: s)
  case Nil
  then show ?case by simp
next
  case (Cons i js)
  from Cons.prems(1) obtain t where t: "body i s = Returns t" "for_each js body t = Returns s'"
    by (auto elim: obind_ReturnsE)
  show ?case
  proof (cases "j \<in> set js")
    case True
    then show ?thesis using Cons.IH [OF t(2)] by simp
  next
    case False
    with Cons.prems(2) have "i = j" by simp
    with t(1) have "Q t" using make by simp
    with t(2) show ?thesis
      by (rule for_each_invariant) (rule keep)
  qed
qed

lemma color_step_Returns:
  assumes "idx < length (points c)" and "j < length (points c)"
  shows "\<exists>st'. color_step ops c idx j k st = Returns st'"
  using assms by (simp add: color_step_def rd_def Let_def)

lemma color_step_keeps:
  "color_step ops c idx j k st = Returns st' \<Longrightarrow> fst st q \<noteq> None \<Longrightarrow> fst st' q \<noteq> None"
  by (auto simp: color_step_def Let_def elim!: obind_ReturnsE)

lemma color_step_writes:
  "color_step ops c idx j k st = Returns st' \<Longrightarrow> fst st' (idx, k) \<noteq> None"
  by (auto simp: color_step_def Let_def elim!: obind_ReturnsE)

lemma color_cell_steps:
  assumes "color_cell ops c col row st = Returns st'"
  obtains s1 s2 s3 where
    "color_step ops c (GetIdx c col row) (GetIdx c col row + 1) 0 st = Returns s1"
    "color_step ops c (GetIdx c col row) (GetIdx c col row + unat (width c)) 1 s1 = Returns s2"
    "color_step ops c (GetIdx c col row) (GetIdx c col row + unat (width c) + 1) 2 s2 = Returns s3"
    "(if col \<noteq> 0
      then color_step ops c (GetIdx c col row) (GetIdx c col row + unat (width c) - 1) 3 s3
      else Returns ((fst s3)((GetIdx c col row, 3) \<mapsto> Fin 1), snd s3)) = Returns st'"
  using assms unfolding color_cell_def Let_def by (elim obind_ReturnsE) blast

lemma color_cell_keeps:
  assumes "color_cell ops c col row st = Returns st'" and "fst st q \<noteq> None"
  shows "fst st' q \<noteq> None"
proof -
  from assms(1) obtain s1 s2 s3 where
    s: "color_step ops c (GetIdx c col row) (GetIdx c col row + 1) 0 st = Returns s1"
    "color_step ops c (GetIdx c col row) (GetIdx c col row + unat (width c)) 1 s1 = Returns s2"
    "color_step ops c (GetIdx c col row) (GetIdx c col row + unat (width c) + 1) 2 s2 = Returns s3"
    and l: "(if col \<noteq> 0
      then color_step ops c (GetIdx c col row) (GetIdx c col row + unat (width c) - 1) 3 s3
      else Returns ((fst s3)((GetIdx c col row, 3) \<mapsto> Fin 1), snd s3)) = Returns st'"
    by (rule color_cell_steps)
  have "fst s3 q \<noteq> None"
    using color_step_keeps [OF s(3)] color_step_keeps [OF s(2)] color_step_keeps [OF s(1)] assms(2)
    by blast
  with l show ?thesis
    by (cases "col = 0") (auto dest: color_step_keeps)
qed

lemma color_cell_writes:
  assumes "color_cell ops c col row st = Returns st'"
  shows "written (GetIdx c col row) (fst st')"
proof -
  let ?idx = "GetIdx c col row"
  from assms(1) obtain s1 s2 s3 where
    s: "color_step ops c ?idx (?idx + 1) 0 st = Returns s1"
    "color_step ops c ?idx (?idx + unat (width c)) 1 s1 = Returns s2"
    "color_step ops c ?idx (?idx + unat (width c) + 1) 2 s2 = Returns s3"
    and l: "(if col \<noteq> 0
      then color_step ops c ?idx (?idx + unat (width c) - 1) 3 s3
      else Returns ((fst s3)((?idx, 3) \<mapsto> Fin 1), snd s3)) = Returns st'"
    by (rule color_cell_steps)
  have w0: "fst s3 (?idx, 0) \<noteq> None"
    using color_step_writes [OF s(1)] color_step_keeps [OF s(2)] color_step_keeps [OF s(3)] by blast
  have w1: "fst s3 (?idx, 1) \<noteq> None"
    using color_step_writes [OF s(2)] color_step_keeps [OF s(3)] by blast
  have w2: "fst s3 (?idx, 2) \<noteq> None"
    using color_step_writes [OF s(3)] .
  show ?thesis
  proof (cases "col = 0")
    case True
    with l have "st' = ((fst s3)((?idx, 3) \<mapsto> Fin 1), snd s3)" by simp
    with w0 w1 w2 show ?thesis by (simp add: written_def)
  next
    case False
    with l have l': "color_step ops c ?idx (?idx + unat (width c) - 1) 3 s3 = Returns st'" by simp
    from color_step_keeps [OF l'] color_step_writes [OF l'] w0 w1 w2
    show ?thesis by (simp add: written_def)
  qed
qed

lemma color_pass_written:
  assumes "color_pass ops c = Returns st"
    and "row < unat (height c - 1)" and "col < unat (width c - 1)"
  shows "written (GetIdx c col row) (fst st)"
proof -
  let ?Q = "\<lambda>st. written (GetIdx c col row) (fst st)"
  have cell_keep: "?Q t'" if "color_cell ops c col' row' t = Returns t'" "?Q t" for col' row' t t'
    using that(2) color_cell_keeps [OF that(1)] by (simp add: written_def)
  have row_keep: "?Q t'"
    if "for_each [0..<unat (width c - 1)] (\<lambda>col. color_cell ops c col row') t = Returns t'" "?Q t"
    for row' t t'
    using that by (rule for_each_invariant) (rule cell_keep)
  have row_make: "?Q t'"
    if "for_each [0..<unat (width c - 1)] (\<lambda>col. color_cell ops c col row) t = Returns t'" for t t'
    using that
  proof (rule for_each_reach)
    show "col \<in> set [0..<unat (width c - 1)]" using assms(3) by simp
  qed (rule cell_keep, assumption+, rule color_cell_writes)
  from assms(1) [unfolded color_pass_def] show ?thesis
  proof (rule for_each_reach)
    show "row \<in> set [0..<unat (height c - 1)]" using assms(2) by simp
  qed (rule row_keep, assumption+, rule row_make)
qed

lemma cell_index_bound:
  assumes "width c \<noteq> 0" and "height c \<noteq> 0"
    and "row < unat (height c - 1)" and "col < unat (width c - 1)"
  shows "GetIdx c col row + unat (width c) + 1 < unat (width c) * unat (height c)"
proof -
  let ?wd = "unat (width c)" and ?ht = "unat (height c)"
  from assms have c: "col + 2 \<le> ?wd" and r: "row + 2 \<le> ?ht"
    by (simp_all add: unat_minus_one)
  from r have "(row + 2) * ?wd \<le> ?ht * ?wd" by (rule mult_le_mono1)
  moreover have "GetIdx c col row + ?wd + 1 < (row + 2) * ?wd"
    using c by (simp add: GetIdx_def)
  ultimately show ?thesis by (simp add: mult.commute)
qed

lemma color_cell_total:
  assumes "GetIdx c col row + unat (width c) + 1 < length (points c)"
  shows "\<exists>st'. color_cell ops c col row st = Returns st'"
proof -
  let ?idx = "GetIdx c col row" and ?wd = "unat (width c)"
  from assms have b: "?idx < length (points c)" "?idx + 1 < length (points c)"
    "?idx + ?wd < length (points c)" "?idx + ?wd - 1 < length (points c)"
    by simp_all
  obtain s1 where s1: "color_step ops c ?idx (?idx + 1) 0 st = Returns s1"
    using color_step_Returns [OF b(1) b(2)] by blast
  obtain s2 where s2: "color_step ops c ?idx (?idx + ?wd) 1 s1 = Returns s2"
    using color_step_Returns [OF b(1) b(3)] by blast
  obtain s3 where s3: "color_step ops c ?idx (?idx + ?wd + 1) 2 s2 = Returns s3"
    using color_step_Returns [OF b(1) assms] by blast
  obtain s4 where s4: "color_step ops c ?idx (?idx + ?wd - 1) 3 s3 = Returns s4"
    using color_step_Returns [OF b(1) b(4)] by blast
  show ?thesis
    unfolding color_cell_def Let_def s1 s2 s3 obind.simps
    using s4 by (cases "col = 0") simp_all
qed

lemma color_pass_total:
  assumes "width c \<noteq> 0" and "height c \<noteq> 0"
    and "unat (width c) * unat (height c) \<le> length (points c)"
  shows "\<exists>st. color_pass ops c = Returns st"
  unfolding color_pass_def
proof (rule for_each_total)
  fix row s
  assume "row \<in> set [0..<unat (height c - 1)]"
  then have row: "row < unat (height c - 1)" by simp
  show "\<exists>s'. for_each [0..<unat (width c - 1)] (\<lambda>col. color_cell ops c col row) s = Returns s'"
  proof (rule for_each_total)
    fix col t
    assume "col \<in> set [0..<unat (width c - 1)]"
    then have "col < unat (width c - 1)" by simp
    from cell_index_bound [OF assms(1,2) row this] assms(3)
    have "GetIdx c col row + unat (width c) + 1 < length (points c)" by simp
    then show "\<exists>t'. color_cell ops c col row t = Returns t'" by (rule color_cell_total)
  qed
qed

lemma edge_dir_total:
  assumes "tbl (idx, k) \<noteq> None"
    and "idx < length (points c)" and "j < length (points c)"
    and "idx < length ns" and "j < length ns"
  shows "\<exists>st'. edge_dir ops c ns tbl mc idx j k st = Returns st'"
  using assms
  by (auto simp: edge_dir_def normals_angle_def depth_gate_def rd_def Let_def)

lemma graph_cell_total:
  assumes w: "written (GetIdx c col row) tbl" and wd: "width c \<noteq> 0"
    and p: "GetIdx c col row + unat (width c) + 1 < length (points c)"
    and n: "GetIdx c col row + unat (width c) + 1 < length ns"
  shows "\<exists>es'. graph_cell ops c ns tbl mc e0 col row es = Returns es'"
proof -
  let ?idx = "GetIdx c col row" and ?wd = "unat (width c)"
  from w have t: "tbl (?idx, 0) \<noteq> None" "tbl (?idx, 1) \<noteq> None" "tbl (?idx, 2) \<noteq> None"
    "tbl (?idx, 3) \<noteq> None"
    by (simp_all add: written_def)
  from p have bp: "?idx < length (points c)" "?idx + 1 < length (points c)"
    "?idx + ?wd < length (points c)" "?idx + ?wd - 1 < length (points c)"
    by simp_all
  from n have bn: "?idx < length ns" "?idx + 1 < length ns"
    "?idx + ?wd < length ns" "?idx + ?wd - 1 < length ns"
    by simp_all
  obtain s1 where s1: "edge_dir ops c ns tbl mc ?idx (?idx + 1) 0 (e0, es) = Returns s1"
    using edge_dir_total [where tbl = tbl, OF t(1) bp(1) bp(2) bn(1) bn(2)] by blast
  obtain s2 where s2: "edge_dir ops c ns tbl mc ?idx (?idx + ?wd) 1 s1 = Returns s2"
    using edge_dir_total [where tbl = tbl, OF t(2) bp(1) bp(3) bn(1) bn(3)] by blast
  obtain s3 where s3: "edge_dir ops c ns tbl mc ?idx (?idx + ?wd + 1) 2 s2 = Returns s3"
    using edge_dir_total [where tbl = tbl, OF t(3) bp(1) p bn(1) n] by blast
  obtain s4 where s4: "edge_dir ops c ns tbl mc ?idx (?idx + ?wd - 1) 3 s3 = Returns s4"
    using edge_dir_total [where tbl = tbl, OF t(4) bp(1) bp(4) bn(1) bn(4)] by blast
  have g: "\<exists>b. depth_gate ops c ?idx (?idx + ?wd - 1) = Returns b"
    using bp(1) bp(4) by (simp add: depth_gate_def rd_def Let_def)
  have wd': "?wd \<noteq> 0" using wd by (simp add: unat_eq_0)
  show ?thesis
    unfolding graph_cell_def Let_def s1 s2 s3 obind.simps
    using wd' g s4 by (cases "?idx mod ?wd = 0") auto
qed

lemma BuildFromPointCloud_returns:
  assumes "width c \<noteq> 0" and "height c \<noteq> 0"
    and "unat (width c) * unat (height c) \<le> length ns"
    and "length ns \<le> length (points c)"
  shows "\<exists>g' es. BuildFromPointCloud ops e0 g c ns = Returns (g', es, length es mod 2 ^ 32)"
proof -
  from max_curvature_Returns [OF assms(4)] obtain v
    where mc: "max_curvature c ns = Returns v" ..
  from assms(3,4) have pts: "unat (width c) * unat (height c) \<le> length (points c)" by simp
  from color_pass_total [OF assms(1,2) pts] obtain st where cp: "color_pass ops c = Returns st" ..
  have "\<exists>es. graph_pass ops c ns (fst st) (snd st) e0 [] = Returns es"
    unfolding graph_pass_def
  proof (rule for_each_total)
    fix row s
    assume "row \<in> set [0..<unat (height c - 1)]"
    then have row: "row < unat (height c - 1)" by simp
    show "\<exists>s'. for_each [0..<unat (width c - 1)]
                  (\<lambda>col. graph_cell ops c ns (fst st) (snd st) e0 col row) s = Returns s'"
    proof (rule for_each_total)
      fix col t
      assume "col \<in> set [0..<unat (width c - 1)]"
      then have col: "col < unat (width c - 1)" by simp
      from cell_index_bound [OF assms(1,2) row col] assms(3) pts
      have b: "GetIdx c col row + unat (width c) + 1 < length (points c)"
        "GetIdx c col row + unat (width c) + 1 < length ns" by simp_all
      from color_pass_written [OF cp row col] assms(1) b
      show "\<exists>t'. graph_cell ops c ns (fst st) (snd st) e0 col row t = Returns t'"
        by (rule graph_cell_total)
    qed
  qed
  then obtain es where gp: "graph_pass ops c ns (fst st) (snd st) e0 [] = Returns es" ..
  show ?thesis
    unfolding BuildFromPointCloud_def mc cp gp obind.simps by blast
qed

subsection \<open>The output on an accepted cloud\<close>

text \<open>
  On an accepted cloud the method returns the edges of the grid, with the colour
  weights read from the table that the first pass has written.
\<close>

lemma BuildFromPointCloud_eq:
  assumes "accepted c ns"
  shows "\<exists>tbl mc. color_pass ops c = Returns (tbl, mc)
       \<and> BuildFromPointCloud ops e0 g c ns
         = Returns (g\<lparr>pcl_cloud := Some c, normals := Some ns,
                       edges := grid_edges ops c ns (color_weight ops tbl mc)\<rparr>,
                    grid_edges ops c ns (color_weight ops tbl mc),
                    length (grid_edges ops c ns (color_weight ops tbl mc)) mod 2 ^ 32)"
proof -
  from assms have "width c \<noteq> 0" "height c \<noteq> 0"
    "unat (width c) * unat (height c) \<le> length ns" "length ns \<le> length (points c)"
    by (simp_all add: accepted_def)
  from BuildFromPointCloud_returns [OF this, of ops e0 g] obtain g' es
    where ret: "BuildFromPointCloud ops e0 g c ns = Returns (g', es, length es mod 2 ^ 32)"
    by blast
  from ret obtain tbl mc where cp: "color_pass ops c = Returns (tbl, mc)"
    and gp: "graph_pass ops c ns tbl mc e0 [] = Returns es"
    and g': "g' = g\<lparr>pcl_cloud := Some c, normals := Some ns, edges := es\<rparr>"
    by (rule BuildFromPointCloud_ReturnsE)
  have "es = grid_edges ops c ns (color_weight ops tbl mc)"
    using graph_pass_Returns [OF gp] by (simp add: grid_edges_def)
  with ret g' cp show ?thesis by simp
qed

lemma grid_edges_source:
  assumes "e \<in> set (grid_edges ops c ns wt)"
  shows "\<not> isnan (pt_z (points c ! edge_a e))"
proof -
  from assms obtain col row where "e \<in> set (cell_edges ops c ns wt col row)"
    unfolding grid_edges_def by auto
  from cell_edges_source [OF this] show ?thesis by simp
qed

lemma grid_edges_cong:
  assumes "\<And>row col. row < unat (height c - 1) \<Longrightarrow> col < unat (width c - 1) \<Longrightarrow>
             cell_edges ops c ns wt col row = cell_edges ops c ns wt' col row"
  shows "grid_edges ops c ns wt = grid_edges ops c ns wt'"
  unfolding grid_edges_def
  by (intro arg_cong [where f = concat] map_cong refl) (simp add: assms)

text \<open>
  On an accepted cloud of one colour every colour weight that an edge receives is the
  NaN of 0/0.
\<close>

lemma grid_edges_zero:
  assumes laws: "float_laws ops" and wd: "width c \<noteq> 0"
    and cp: "color_pass ops c = Returns (tbl, mc)" and u: "uniform_color c r gr b"
  shows "mc = Fin 0
       \<and> grid_edges ops c ns (color_weight ops tbl mc) = grid_edges ops c ns (\<lambda>idx k. NaN)"
proof -
  from color_pass_zero [OF laws u cp] have mc: "mc = Fin 0"
    and tbl: "\<And>i k v. tbl (i, k) = Some v \<Longrightarrow>
                v = Fin 0 \<or> (k = 3 \<and> i mod unat (width c) = 0 \<and> v = Fin 1)"
    unfolding color_zero_def by auto
  from laws have nan: "s_div ops (Fin 0) (Fin 0) = NaN" by (simp add: float_laws_def)
  have "cell_edges ops c ns (color_weight ops tbl mc) col row
        = cell_edges ops c ns (\<lambda>idx k. NaN) col row"
    if row: "row < unat (height c - 1)" and col: "col < unat (width c - 1)" for row col
  proof -
    let ?idx = "GetIdx c col row"
    have c0: "col < unat (width c)" using loop_bound [OF wd, of col] col by simp
    have m: "?idx mod unat (width c) = col" using c0 by (rule GetIdx_mod)
    from color_pass_written [OF cp row col] have w: "written ?idx tbl" by simp
    have reg: "color_weight ops tbl mc ?idx k = NaN"
      if "tbl (?idx, k) \<noteq> None" "k = 3 \<longrightarrow> col \<noteq> 0" for k
    proof -
      from that(1) obtain v where v: "tbl (?idx, k) = Some v" by auto
      from tbl [OF v] that(2) m have "v = Fin 0" by auto
      with v show ?thesis by (simp add: color_weight_def mc nan)
    qed
    have "color_weight ops tbl mc ?idx 0 = NaN" "color_weight ops tbl mc ?idx 1 = NaN"
      "color_weight ops tbl mc ?idx 2 = NaN" "col \<noteq> 0 \<longrightarrow> color_weight ops tbl mc ?idx 3 = NaN"
      using w by (simp_all add: written_def reg)
    then show ?thesis by (simp add: cell_edges_def Let_def dir_edge_def)
  qed
  then have "grid_edges ops c ns (color_weight ops tbl mc) = grid_edges ops c ns (\<lambda>idx k. NaN)"
    by (rule grid_edges_cong)
  with mc show ?thesis by simp
qed

text \<open>The body of the second pass on a cell whose colour distances have been written.\<close>

lemma graph_cell_eq:
  assumes "written (GetIdx c col row) tbl" and "width c \<noteq> 0" and "col < unat (width c)"
    and "GetIdx c col row + unat (width c) + 1 < length (points c)"
    and "GetIdx c col row + unat (width c) + 1 < length ns"
  shows "graph_cell ops c ns tbl mc e0 col row es
         = Returns (es @ cell_edges ops c ns (color_weight ops tbl mc) col row)"
proof -
  from graph_cell_total [OF assms(1,2,4,5), of ops mc e0 es] obtain es'
    where r: "graph_cell ops c ns tbl mc e0 col row es = Returns es'" ..
  from graph_cell_Returns [OF r assms(3)] r show ?thesis by simp
qed

text \<open>The edges held before the call have no influence on it.\<close>

lemma BuildFromPointCloud_clears:
  "BuildFromPointCloud ops e0 (g\<lparr>edges := old\<rparr>) c ns = BuildFromPointCloud ops e0 g c ns"
  by (simp add: BuildFromPointCloud_def)

subsection \<open>The example clouds, evaluated\<close>

lemmas eval_defs =
  BuildFromPointCloud_def max_curvature_def curvature_step_def color_pass_def color_cell_def
  color_step_def color_distance_def channel_def graph_pass_def graph_cell_def edge_dir_def
  depth_gate_def normals_angle_def example_ops_def
  rd_def upt_rec GetIdx_def isnan_def fsub_def fgt_def z_adapt_def signed_inf_def Let_def
  pt_black_def pt_red_def pt_hole_def normal_up_def normal_down_def
  edge_zero_def Graph_default_def

lemma color_pass_flat:
  "color_pass example_ops cloud_flat
   = Returns (Map.empty((0, 0) \<mapsto> Fin 0, (0, 1) \<mapsto> Fin 0, (0, 2) \<mapsto> Fin 0, (0, 3) \<mapsto> Fin 1), Fin 0)"
  by (simp add: eval_defs cloud_flat_def)

lemma build_flat:
  "BuildFromPointCloud example_ops edge_zero Graph_default cloud_flat
     [normal_up, normal_up, normal_up, normal_up]
   = Returns
      (\<lparr>nodes = 0, relations = [],
        edges = [\<lparr>edge_a = 0, edge_b = 1, edge_type = 1, edge_w = NaN, edge_w2 = Fin 0\<rparr>,
                 \<lparr>edge_a = 0, edge_b = 2, edge_type = 1, edge_w = NaN, edge_w2 = Fin 0\<rparr>,
                 \<lparr>edge_a = 0, edge_b = 3, edge_type = 1, edge_w = NaN, edge_w2 = Fin 0\<rparr>,
                 \<lparr>edge_a = 0, edge_b = 3, edge_type = 1, edge_w = Fin 1, edge_w2 = Fin 0\<rparr>],
        pcl_cloud = Some cloud_flat,
        normals = Some [normal_up, normal_up, normal_up, normal_up]\<rparr>,
       [\<lparr>edge_a = 0, edge_b = 1, edge_type = 1, edge_w = NaN, edge_w2 = Fin 0\<rparr>,
        \<lparr>edge_a = 0, edge_b = 2, edge_type = 1, edge_w = NaN, edge_w2 = Fin 0\<rparr>,
        \<lparr>edge_a = 0, edge_b = 3, edge_type = 1, edge_w = NaN, edge_w2 = Fin 0\<rparr>,
        \<lparr>edge_a = 0, edge_b = 3, edge_type = 1, edge_w = Fin 1, edge_w2 = Fin 0\<rparr>],
       4)"
  by (simp add: eval_defs cloud_flat_def)

lemma build_opposite:
  "BuildFromPointCloud example_ops edge_zero Graph_default cloud_flat
     [normal_up, normal_down, normal_up, normal_up]
   = Returns
      (\<lparr>nodes = 0, relations = [],
        edges = [\<lparr>edge_a = 0, edge_b = 1, edge_type = 1, edge_w = NaN, edge_w2 = Fin float_pi\<rparr>,
                 \<lparr>edge_a = 0, edge_b = 2, edge_type = 1, edge_w = NaN, edge_w2 = Fin 0\<rparr>,
                 \<lparr>edge_a = 0, edge_b = 3, edge_type = 1, edge_w = NaN, edge_w2 = Fin 0\<rparr>,
                 \<lparr>edge_a = 0, edge_b = 3, edge_type = 1, edge_w = Fin 1, edge_w2 = Fin 0\<rparr>],
        pcl_cloud = Some cloud_flat,
        normals = Some [normal_up, normal_down, normal_up, normal_up]\<rparr>,
       [\<lparr>edge_a = 0, edge_b = 1, edge_type = 1, edge_w = NaN, edge_w2 = Fin float_pi\<rparr>,
        \<lparr>edge_a = 0, edge_b = 2, edge_type = 1, edge_w = NaN, edge_w2 = Fin 0\<rparr>,
        \<lparr>edge_a = 0, edge_b = 3, edge_type = 1, edge_w = NaN, edge_w2 = Fin 0\<rparr>,
        \<lparr>edge_a = 0, edge_b = 3, edge_type = 1, edge_w = Fin 1, edge_w2 = Fin 0\<rparr>],
       4)"
  by (simp add: eval_defs cloud_flat_def)

lemma accepted_2x2:
  "accepted cloud_flat [n0, n1, n2, n3]" "accepted cloud_red [n0, n1, n2, n3]"
  "accepted cloud_hole [n0, n1, n2, n3]"
  by (simp_all add: accepted_def cloud_flat_def cloud_red_def cloud_hole_def)

lemma written_example:
  "written 0 (Map.empty((0, 0) \<mapsto> Fin 0, (0, 1) \<mapsto> Fin 0, (0, 2) \<mapsto> Fin 0, (0, 3) \<mapsto> Fin 1))"
  by (simp add: written_def)

text \<open>The cloud of three by two copies of one point, in any arithmetic that obeys the laws.\<close>

lemma color_pass_3x2:
  assumes "float_laws ops"
  shows "color_pass ops (cloud_3x2 p)
   = Returns (Map.empty((0, 0) \<mapsto> Fin 0, (0, 1) \<mapsto> Fin 0, (0, 2) \<mapsto> Fin 0, (0, 3) \<mapsto> Fin 1,
                         (1, 0) \<mapsto> Fin 0, (1, 1) \<mapsto> Fin 0, (1, 2) \<mapsto> Fin 0, (1, 3) \<mapsto> Fin 0),
              Fin 0)"
  by (simp add: color_pass_def color_cell_def color_step_def rd_def upt_rec GetIdx_def
      color_distance_same [OF assms refl refl refl] fgt_def Let_def cloud_3x2_def)

lemma graph_pass_3x2:
  assumes "float_laws ops" and "pt_z p = Fin 1" and "Dot3 ops (normal nm) (normal nm) = Fin 1"
  shows "graph_pass ops (cloud_3x2 p) (replicate 6 nm)
     (Map.empty((0, 0) \<mapsto> Fin 0, (0, 1) \<mapsto> Fin 0, (0, 2) \<mapsto> Fin 0, (0, 3) \<mapsto> Fin 1,
                (1, 0) \<mapsto> Fin 0, (1, 1) \<mapsto> Fin 0, (1, 2) \<mapsto> Fin 0, (1, 3) \<mapsto> Fin 0))
     (Fin 0) e0 [] = Returns edges_3x2"
proof -
  from assms(1) have nan: "s_div ops (Fin 0) (Fin 0) = NaN" and ac: "f_acos ops (Fin 1) = Fin 0"
    and mul: "s_mul ops (Fin (5368709 / 536870912)) (Fin 1) = Fin (5368709 / 536870912)"
    by (simp_all add: float_laws_def z_adapt_def)
  note sub = s_sub_same [OF assms(1)]
  show ?thesis
    using assms(2,3)
    by (simp add: graph_pass_def graph_cell_def edge_dir_def depth_gate_def normals_angle_def
        rd_def upt_rec GetIdx_def isnan_def nan ac mul sub z_adapt_def Let_def
        cloud_3x2_def edges_3x2_def)
qed

lemma build_3x2:
  assumes "float_laws ops" and "pt_z p = Fin 1" and "Dot3 ops (normal nm) (normal nm) = Fin 1"
  shows "BuildFromPointCloud ops e0 g (cloud_3x2 p) (replicate 6 nm)
   = Returns (g\<lparr>pcl_cloud := Some (cloud_3x2 p), normals := Some (replicate 6 nm),
                 edges := edges_3x2\<rparr>, edges_3x2, 8)"
proof -
  have "length (replicate 6 nm) \<le> length (points (cloud_3x2 p))"
    by (simp add: cloud_3x2_def)
  from max_curvature_Returns [OF this] obtain v
    where mc: "max_curvature (cloud_3x2 p) (replicate 6 nm) = Returns v" ..
  show ?thesis
    unfolding BuildFromPointCloud_def mc color_pass_3x2 [OF assms(1)] obind.simps fst_conv
      snd_conv graph_pass_3x2 [OF assms]
    by (simp add: edges_3x2_def)
qed

section \<open>The claims about BuildFromPointCloud\<close>

text \<open>
  The theorems of this section hold for every choice of the rounding operations
  \<open>ops\<close>; those about the values of the weights assume the laws \<open>float_laws\<close>. Those
  about the whole method are stated for the clouds that the method accepts, those about
  the body of the second pair of loops for the cells whose colour distances have been
  written and whose neighbours exist; each says that the call returns.
\<close>

subsection \<open>The depth-continuity gate\<close>

text \<open>
  Claim C2. On an accepted cloud \<^verbatim>\<open>BuildFromPointCloud\<close> returns, and its output is,
  cell by cell in the order of the loops (rows \<open>0 \<le> row < height - 1\<close>, in each row
  columns \<open>0 \<le> col < width - 1\<close>, both bounds in 32-bit unsigned arithmetic), the list
  \<open>cell_edges\<close> of that cell: for each of the four directions the edge of that
  direction is in the output if and only if the depths of the source point and of the
  gate's neighbour are both valid and their absolute difference is below \<^verbatim>\<open>z_adapt\<close>
  times the source depth, computed and compared in \<^verbatim>\<open>float\<close>. In the first column the
  gate of the fourth direction reads the point of index \<open>idx + width - 1\<close>. In
  particular no edge of the output starts at a point whose depth is NaN.
\<close>

theorem BuildFromPointCloud_depth_gate:
  assumes "accepted c ns"
  shows "\<exists>tbl mc. color_pass ops c = Returns (tbl, mc)
       \<and> BuildFromPointCloud ops e0 g c ns
         = Returns (g\<lparr>pcl_cloud := Some c, normals := Some ns,
                       edges := grid_edges ops c ns (color_weight ops tbl mc)\<rparr>,
                    grid_edges ops c ns (color_weight ops tbl mc),
                    length (grid_edges ops c ns (color_weight ops tbl mc)) mod 2 ^ 32)
       \<and> (\<forall>e\<in>set (grid_edges ops c ns (color_weight ops tbl mc)).
             \<not> isnan (pt_z (points c ! edge_a e)))"
proof -
  from BuildFromPointCloud_eq [OF assms, of ops e0 g] obtain tbl mc
    where "color_pass ops c = Returns (tbl, mc)"
      and "BuildFromPointCloud ops e0 g c ns
         = Returns (g\<lparr>pcl_cloud := Some c, normals := Some ns,
                       edges := grid_edges ops c ns (color_weight ops tbl mc)\<rparr>,
                    grid_edges ops c ns (color_weight ops tbl mc),
                    length (grid_edges ops c ns (color_weight ops tbl mc)) mod 2 ^ 32)"
    by blast
  moreover have "\<forall>e\<in>set (grid_edges ops c ns (color_weight ops tbl mc)).
             \<not> isnan (pt_z (points c ! edge_a e))"
    by (auto dest: grid_edges_source)
  ultimately show ?thesis by blast
qed

text \<open>
  The cloud of two by two points whose last point has no depth, with the arithmetic of
  the examples.
\<close>

theorem BuildFromPointCloud_depth_gate_witness:
  "\<exists>tbl mc. color_pass example_ops cloud_hole = Returns (tbl, mc)
     \<and> BuildFromPointCloud example_ops edge_zero Graph_default cloud_hole
         [normal_up, normal_up, normal_up, normal_up]
       = Returns (Graph_default\<lparr>pcl_cloud := Some cloud_hole,
                     normals := Some [normal_up, normal_up, normal_up, normal_up],
                     edges := grid_edges example_ops cloud_hole
                       [normal_up, normal_up, normal_up, normal_up]
                       (color_weight example_ops tbl mc)\<rparr>,
                  grid_edges example_ops cloud_hole [normal_up, normal_up, normal_up, normal_up]
                    (color_weight example_ops tbl mc),
                  length (grid_edges example_ops cloud_hole
                    [normal_up, normal_up, normal_up, normal_up]
                    (color_weight example_ops tbl mc)) mod 2 ^ 32)
     \<and> (\<forall>e\<in>set (grid_edges example_ops cloud_hole [normal_up, normal_up, normal_up, normal_up]
                    (color_weight example_ops tbl mc)).
           \<not> isnan (pt_z (points cloud_hole ! edge_a e)))"
  by (rule BuildFromPointCloud_depth_gate [OF accepted_2x2(3)])

subsection \<open>The ranges of the weights\<close>

text \<open>
  Claim C3, as the code has it. In an arithmetic that obeys the laws, on an accepted
  cloud \<^verbatim>\<open>BuildFromPointCloud\<close> returns, and every edge of the output has \<open>w2\<close> between
  0 and \<open>float_pi\<close>, the largest value of \<^verbatim>\<open>acos\<close> (3.14159274, the sentinel 1.57
  included), and \<open>w\<close> between 0 and 1 provided the maximum colour distance found by the
  first pass is not zero.
\<close>

theorem BuildFromPointCloud_weight_ranges:
  assumes "float_laws ops" and "accepted c ns"
  shows "\<exists>g' es tbl mc.
           BuildFromPointCloud ops e0 g c ns = Returns (g', es, length es mod 2 ^ 32)
         \<and> color_pass ops c = Returns (tbl, mc)
         \<and> (\<forall>e\<in>set es.
               (\<exists>y. edge_w2 e = Fin y \<and> 0 \<le> y \<and> y \<le> float_pi)
             \<and> (mc \<noteq> Fin 0 \<longrightarrow> (\<exists>x. edge_w e = Fin x \<and> 0 \<le> x \<and> x \<le> 1)))"
proof -
  from assms(2) have "width c \<noteq> 0" "height c \<noteq> 0"
    "unat (width c) * unat (height c) \<le> length ns" "length ns \<le> length (points c)"
    by (simp_all add: accepted_def)
  from BuildFromPointCloud_returns [OF this, of ops e0 g] obtain g' es
    where ret: "BuildFromPointCloud ops e0 g c ns = Returns (g', es, length es mod 2 ^ 32)"
    by blast
  from ret obtain tbl mc where cp: "color_pass ops c = Returns (tbl, mc)"
    and gp: "graph_pass ops c ns tbl mc e0 [] = Returns es"
    by (rule BuildFromPointCloud_ReturnsE)
  from color_pass_ok [OF assms(1) cp] have "color_ok (unat (width c)) (tbl, mc)" .
  from graph_pass_weights [OF assms(1) gp this]
  have "\<forall>e\<in>set es.
               (\<exists>y. edge_w2 e = Fin y \<and> 0 \<le> y \<and> y \<le> float_pi)
             \<and> (mc \<noteq> Fin 0 \<longrightarrow> (\<exists>x. edge_w e = Fin x \<and> 0 \<le> x \<and> x \<le> 1))"
    by (simp add: weights_ok_def)
  with ret cp show ?thesis by blast
qed

theorem BuildFromPointCloud_weight_ranges_witness:
  "\<exists>g' es tbl mc.
     BuildFromPointCloud example_ops edge_zero Graph_default cloud_red
       [normal_up, normal_up, normal_up, normal_up] = Returns (g', es, length es mod 2 ^ 32)
     \<and> color_pass example_ops cloud_red = Returns (tbl, mc)
     \<and> (\<forall>e\<in>set es.
           (\<exists>y. edge_w2 e = Fin y \<and> 0 \<le> y \<and> y \<le> float_pi)
         \<and> (mc \<noteq> Fin 0 \<longrightarrow> (\<exists>x. edge_w e = Fin x \<and> 0 \<le> x \<and> x \<le> 1)))"
  by (rule BuildFromPointCloud_weight_ranges [OF float_laws_example accepted_2x2(2)])

text \<open>
  The claim as the specification states it (\<open>w\<close> in \<open>[0, 1]\<close> and \<open>w2\<close> in
  \<open>[0, 1.58]\<close> for every cloud) fails on the uniformly black cloud of two by two points
  at depth 1.0 whose second normal is opposed to the first: the first edge has \<open>w\<close>
  NaN, from 0/0, and \<open>w2\<close> the value of \<^verbatim>\<open>acos\<close> at -1, which is above 1.58. All
  operations of this run are exact: the colour distances are 0, the dot products are 1
  and -1, the depth differences are 0 and the threshold is \<^verbatim>\<open>z_adapt\<close> times 1.
\<close>

theorem BuildFromPointCloud_weight_ranges_violated:
  "BuildFromPointCloud example_ops edge_zero Graph_default cloud_flat
     [normal_up, normal_down, normal_up, normal_up]
   = Returns
      (\<lparr>nodes = 0, relations = [],
        edges = [\<lparr>edge_a = 0, edge_b = 1, edge_type = 1, edge_w = NaN, edge_w2 = Fin float_pi\<rparr>,
                 \<lparr>edge_a = 0, edge_b = 2, edge_type = 1, edge_w = NaN, edge_w2 = Fin 0\<rparr>,
                 \<lparr>edge_a = 0, edge_b = 3, edge_type = 1, edge_w = NaN, edge_w2 = Fin 0\<rparr>,
                 \<lparr>edge_a = 0, edge_b = 3, edge_type = 1, edge_w = Fin 1, edge_w2 = Fin 0\<rparr>],
        pcl_cloud = Some cloud_flat,
        normals = Some [normal_up, normal_down, normal_up, normal_up]\<rparr>,
       [\<lparr>edge_a = 0, edge_b = 1, edge_type = 1, edge_w = NaN, edge_w2 = Fin float_pi\<rparr>,
        \<lparr>edge_a = 0, edge_b = 2, edge_type = 1, edge_w = NaN, edge_w2 = Fin 0\<rparr>,
        \<lparr>edge_a = 0, edge_b = 3, edge_type = 1, edge_w = NaN, edge_w2 = Fin 0\<rparr>,
        \<lparr>edge_a = 0, edge_b = 3, edge_type = 1, edge_w = Fin 1, edge_w2 = Fin 0\<rparr>],
       4)
   \<and> 158 / 100 < float_pi"
  using build_opposite by (simp add: float_pi_def)

subsection \<open>Division by the maximum colour distance\<close>

text \<open>
  Claim C7, as the code has it. The division by \<^verbatim>\<open>max_color\<close> is not guarded. In an
  arithmetic that obeys the laws, on an accepted cloud whose points all have the same
  colour, the first pass leaves \<^verbatim>\<open>max_color\<close> at zero and \<^verbatim>\<open>BuildFromPointCloud\<close>
  returns the edges of the grid with the NaN of 0/0 as \<open>w\<close> in every edge of the
  directions right, bottom and bottom-right and in every bottom-left edge outside the
  first column; the bottom-left edges of the first column carry the constant 1.0.
\<close>

theorem BuildFromPointCloud_zero_max_color:
  assumes "float_laws ops" and "accepted c ns" and "uniform_color c r gr b"
  shows "\<exists>tbl. color_pass ops c = Returns (tbl, Fin 0)
       \<and> BuildFromPointCloud ops e0 g c ns
         = Returns (g\<lparr>pcl_cloud := Some c, normals := Some ns,
                       edges := grid_edges ops c ns (\<lambda>idx k. NaN)\<rparr>,
                    grid_edges ops c ns (\<lambda>idx k. NaN),
                    length (grid_edges ops c ns (\<lambda>idx k. NaN)) mod 2 ^ 32)"
proof -
  from BuildFromPointCloud_eq [OF assms(2), of ops e0 g] obtain tbl mc
    where cp: "color_pass ops c = Returns (tbl, mc)"
      and ret: "BuildFromPointCloud ops e0 g c ns
         = Returns (g\<lparr>pcl_cloud := Some c, normals := Some ns,
                       edges := grid_edges ops c ns (color_weight ops tbl mc)\<rparr>,
                    grid_edges ops c ns (color_weight ops tbl mc),
                    length (grid_edges ops c ns (color_weight ops tbl mc)) mod 2 ^ 32)"
    by blast
  from assms(2) have wd: "width c \<noteq> 0" by (simp add: accepted_def)
  note zero = grid_edges_zero [OF assms(1) wd cp assms(3), of ns]
  have cp': "color_pass ops c = Returns (tbl, Fin 0)"
    using cp unfolding zero [THEN conjunct1] .
  have "BuildFromPointCloud ops e0 g c ns
         = Returns (g\<lparr>pcl_cloud := Some c, normals := Some ns,
                       edges := grid_edges ops c ns (\<lambda>idx k. NaN)\<rparr>,
                    grid_edges ops c ns (\<lambda>idx k. NaN),
                    length (grid_edges ops c ns (\<lambda>idx k. NaN)) mod 2 ^ 32)"
    using ret unfolding zero [THEN conjunct2] .
  with cp' show ?thesis by blast
qed

theorem BuildFromPointCloud_zero_max_color_witness:
  "\<exists>tbl. color_pass example_ops cloud_flat = Returns (tbl, Fin 0)
     \<and> BuildFromPointCloud example_ops edge_zero Graph_default cloud_flat
         [normal_up, normal_up, normal_up, normal_up]
       = Returns (Graph_default\<lparr>pcl_cloud := Some cloud_flat,
                     normals := Some [normal_up, normal_up, normal_up, normal_up],
                     edges := grid_edges example_ops cloud_flat
                       [normal_up, normal_up, normal_up, normal_up] (\<lambda>idx k. NaN)\<rparr>,
                  grid_edges example_ops cloud_flat [normal_up, normal_up, normal_up, normal_up]
                    (\<lambda>idx k. NaN),
                  length (grid_edges example_ops cloud_flat
                    [normal_up, normal_up, normal_up, normal_up] (\<lambda>idx k. NaN)) mod 2 ^ 32)"
proof -
  have "uniform_color cloud_flat 0 0 0"
    by (simp add: uniform_color_def cloud_flat_def pt_black_def)
  with float_laws_example accepted_2x2(1) show ?thesis
    by (rule BuildFromPointCloud_zero_max_color)
qed

text \<open>
  The claim as the specification states it (no emitted edge gets a weight from a
  division by zero) fails on the uniformly black cloud of two by two points: the first
  pass leaves \<^verbatim>\<open>max_color\<close> at zero and three of the four edges have \<open>w = 0/0\<close>. All
  operations of this run are exact.
\<close>

theorem BuildFromPointCloud_division_unguarded:
  "color_pass example_ops cloud_flat
   = Returns (Map.empty((0, 0) \<mapsto> Fin 0, (0, 1) \<mapsto> Fin 0, (0, 2) \<mapsto> Fin 0, (0, 3) \<mapsto> Fin 1), Fin 0)
   \<and> BuildFromPointCloud example_ops edge_zero Graph_default cloud_flat
     [normal_up, normal_up, normal_up, normal_up]
   = Returns
      (\<lparr>nodes = 0, relations = [],
        edges = [\<lparr>edge_a = 0, edge_b = 1, edge_type = 1, edge_w = NaN, edge_w2 = Fin 0\<rparr>,
                 \<lparr>edge_a = 0, edge_b = 2, edge_type = 1, edge_w = NaN, edge_w2 = Fin 0\<rparr>,
                 \<lparr>edge_a = 0, edge_b = 3, edge_type = 1, edge_w = NaN, edge_w2 = Fin 0\<rparr>,
                 \<lparr>edge_a = 0, edge_b = 3, edge_type = 1, edge_w = Fin 1, edge_w2 = Fin 0\<rparr>],
        pcl_cloud = Some cloud_flat,
        normals = Some [normal_up, normal_up, normal_up, normal_up]\<rparr>,
       [\<lparr>edge_a = 0, edge_b = 1, edge_type = 1, edge_w = NaN, edge_w2 = Fin 0\<rparr>,
        \<lparr>edge_a = 0, edge_b = 2, edge_type = 1, edge_w = NaN, edge_w2 = Fin 0\<rparr>,
        \<lparr>edge_a = 0, edge_b = 3, edge_type = 1, edge_w = NaN, edge_w2 = Fin 0\<rparr>,
        \<lparr>edge_a = 0, edge_b = 3, edge_type = 1, edge_w = Fin 1, edge_w2 = Fin 0\<rparr>],
       4)
   \<and> s_div example_ops (Fin 0) (Fin 0) = NaN"
  using build_flat color_pass_flat by (simp add: example_ops_def signed_inf_def)

subsection \<open>The bottom-left direction in the first column\<close>

text \<open>
  Claim C8. For a cell of the first column (\<open>col = 0\<close>) whose colour distances have
  been written and whose neighbours lie within the points and the normals, the body of
  the second pair of loops returns: it appends the admitted edges of the three
  directions right, bottom and bottom-right, and then, exactly when the depth gate on
  the points of index \<open>idx\<close> and \<open>idx + width - 1\<close> admits it, one more edge: the
  bottom-right edge with \<open>w\<close> set to 1.0 and nothing else changed, so no angle is
  computed for it. The index \<open>idx + width - 1\<close> is that of the last column of the
  cell's own row, the row before the one in which a bottom-left neighbour would lie.
\<close>

theorem graph_cell_first_column:
  assumes "written idx tbl" and "width c \<noteq> 0"
    and "idx + wd + 1 < length (points c)" and "idx + wd + 1 < length ns"
    and "idx = GetIdx c 0 row" and "wd = unat (width c)"
  shows "graph_cell ops c ns tbl mc e0 0 row es
         = Returns (es
           @ (if admits ops c idx (idx + 1)
              then [dir_edge ops c ns idx (idx + 1) (color_weight ops tbl mc idx 0)] else [])
           @ (if admits ops c idx (idx + wd)
              then [dir_edge ops c ns idx (idx + wd) (color_weight ops tbl mc idx 1)] else [])
           @ (if admits ops c idx (idx + wd + 1)
              then [dir_edge ops c ns idx (idx + wd + 1) (color_weight ops tbl mc idx 2)] else [])
           @ (if admits ops c idx (idx + wd - 1)
              then [(dir_edge ops c ns idx (idx + wd + 1) (color_weight ops tbl mc idx 2))
                      \<lparr>edge_w := Fin 1\<rparr>]
              else []))
       \<and> idx + wd - 1 = GetIdx c (wd - 1) row"
proof -
  have w: "0 < unat (width c)"
    using assms(2) by (simp add: unat_gt_0)
  have "graph_cell ops c ns tbl mc e0 0 row es
         = Returns (es @ cell_edges ops c ns (color_weight ops tbl mc) 0 row)"
    using assms(1,3,4) unfolding assms(5,6) by (intro graph_cell_eq assms(2) w)
  moreover have "idx + wd - 1 = GetIdx c (wd - 1) row"
    using w by (simp add: assms(5,6) GetIdx_def)
  ultimately show ?thesis
    by (simp add: cell_edges_def Let_def assms(5,6))
qed

theorem graph_cell_first_column_witness:
  "graph_cell example_ops cloud_hole [normal_up, normal_up, normal_up, normal_up]
     (Map.empty((0, 0) \<mapsto> Fin 0, (0, 1) \<mapsto> Fin 0, (0, 2) \<mapsto> Fin 0, (0, 3) \<mapsto> Fin 1)) (Fin 0)
     edge_zero 0 0 []
   = Returns
       [\<lparr>edge_a = 0, edge_b = 1, edge_type = 1, edge_w = NaN, edge_w2 = Fin 0\<rparr>,
        \<lparr>edge_a = 0, edge_b = 2, edge_type = 1, edge_w = NaN, edge_w2 = Fin 0\<rparr>,
        \<lparr>edge_a = 0, edge_b = 3, edge_type = 1, edge_w = Fin 1, edge_w2 = Fin 0\<rparr>]
   \<and> (0::nat) + 2 - 1 = GetIdx cloud_hole (2 - 1) 0"
proof -
  have "width cloud_hole \<noteq> 0" "0 + 2 + 1 < length (points cloud_hole)"
    "0 + 2 + 1 < length [normal_up, normal_up, normal_up, normal_up]"
    "(0::nat) = GetIdx cloud_hole 0 0" "(2::nat) = unat (width cloud_hole)"
    by (simp_all add: GetIdx_def cloud_hole_def)
  from graph_cell_first_column [OF written_example this,
      of example_ops "Fin 0" edge_zero "[]"]
  show ?thesis
    by (simp add: admits_def dir_edge_def angle_weight_def color_weight_def example_ops_def
        cloud_hole_def pt_black_def pt_hole_def normal_up_def isnan_def fsub_def z_adapt_def
        signed_inf_def GetIdx_def)
qed



subsection \<open>The cloud of three by two points\<close>

text \<open>
  Claim C9, as the code has it. In an arithmetic that obeys the laws, on a grid three
  wide and two high whose points are all equal, with depth 1.0, and whose normals are
  all equal, with a dot product with itself that is exactly 1,
  \<^verbatim>\<open>BuildFromPointCloud\<close> returns exactly eight edges, four for each of the two cells;
  every edge has \<open>w2 = 0\<close>; \<open>w\<close> is NaN (from 0/0, the maximum colour distance being
  zero) for seven of them and 1.0 for the bottom-left edge of the first column.
\<close>

theorem BuildFromPointCloud_flat_3x2:
  assumes "float_laws ops"
    and "pt_z p = Fin 1" and "Dot3 ops (normal nm) (normal nm) = Fin 1"
  shows "BuildFromPointCloud ops e0 g (cloud_3x2 p) (replicate 6 nm)
         = Returns (g\<lparr>pcl_cloud := Some (cloud_3x2 p), normals := Some (replicate 6 nm),
                       edges := edges_3x2\<rparr>, edges_3x2, 8)
       \<and> length edges_3x2 = 8
       \<and> map edge_w edges_3x2 = [NaN, NaN, NaN, Fin 1, NaN, NaN, NaN, NaN]
       \<and> map edge_w2 edges_3x2 = replicate 8 (Fin 0)"
  using build_3x2 [OF assms] by (simp add: edges_3x2_def numeral_eq_Suc)

theorem BuildFromPointCloud_flat_3x2_witness:
  "BuildFromPointCloud example_ops edge_zero Graph_default (cloud_3x2 pt_red)
     (replicate 6 normal_up)
   = Returns (Graph_default\<lparr>pcl_cloud := Some (cloud_3x2 pt_red),
                             normals := Some (replicate 6 normal_up),
                             edges := edges_3x2\<rparr>, edges_3x2, 8)"
  using BuildFromPointCloud_flat_3x2 [OF float_laws_example,
      of pt_red normal_up edge_zero Graph_default]
  by (simp add: pt_red_def normal_up_def example_ops_def)

text \<open>
  The claim as the specification states it (exactly four edges, all with \<open>w = 0\<close> and
  \<open>w2 = 0\<close>) fails on the black cloud with normals along the z axis. All operations of
  this run are exact.
\<close>

theorem BuildFromPointCloud_flat_3x2_not_four:
  "\<not> (\<exists>g' es n.
        BuildFromPointCloud example_ops edge_zero Graph_default (cloud_3x2 pt_black)
          (replicate 6 normal_up) = Returns (g', es, n)
        \<and> length es = 4 \<and> list_all (\<lambda>e. edge_w e = Fin 0 \<and> edge_w2 e = Fin 0) es)"
proof -
  have "BuildFromPointCloud example_ops edge_zero Graph_default (cloud_3x2 pt_black)
          (replicate 6 normal_up)
   = Returns (Graph_default\<lparr>pcl_cloud := Some (cloud_3x2 pt_black),
                 normals := Some (replicate 6 normal_up),
                 edges := edges_3x2\<rparr>, edges_3x2, 8)"
    by (rule build_3x2 [OF float_laws_example])
      (simp_all add: pt_black_def normal_up_def example_ops_def)
  then show ?thesis by (simp add: edges_3x2_def)
qed


end
